theory Spec2Isabelle
  imports Complex_Main
begin

section \<open>Python values held by the coordinator\<close>

text \<open>
  A Python \<open>float\<close> is an IEEE-754 binary64 number.  A finite one is represented by the
  number it denotes; the two infinities and the not-a-number value are separate.  The
  two zeros of binary64 compare equal in Python and no operation of this platform tells
  them apart, so they are one value, \<open>Finite 0\<close>.
\<close>

datatype pyfloat = Finite real | PInf | NInf | NaN

text \<open>
  The state tree is what \<open>json\<close> decoding produces: \<open>None\<close>, booleans, unbounded integers,
  floats, strings, lists and dictionaries.  A dictionary keeps its insertion order, so it
  is an association list; each key occurs once in it.
\<close>

datatype json =
    JNull
  | JBool bool
  | JInt int
  | JFloat pyfloat
  | JStr string
  | JList "json list"
  | JDict "(string \<times> json) list"

type_synonym pydict = "(string \<times> json) list"

text \<open>\<open>d.get(k)\<close>: the value stored under \<open>k\<close>, or \<open>None\<close> when the key is missing.\<close>

definition dict_get :: "pydict \<Rightarrow> string \<Rightarrow> json" where
  "dict_get d k = (case map_of d k of None \<Rightarrow> JNull | Some v \<Rightarrow> v)"

text \<open>\<open>isinstance(v, dict)\<close>.\<close>

fun isinstance_dict :: "json \<Rightarrow> bool" where
  "isinstance_dict (JDict d) = True"
| "isinstance_dict v = False"

text \<open>\<open>d.items()\<close> of a value already known to be a dictionary.\<close>

fun dict_items :: "json \<Rightarrow> (string \<times> json) list" where
  "dict_items (JDict d) = d"
| "dict_items v = []"

section \<open>Entity descriptions\<close>

datatype unit_of_measurement = PERCENTAGE | CELSIUS

datatype number_mode = SLIDER | BOX

record NumberEntityDescription =
  key :: string
  name :: string
  icon :: string
  native_unit_of_measurement :: "unit_of_measurement option"
  native_min_value :: real
  native_max_value :: real
  native_step :: real
  mode :: number_mode

text \<open>
  \<open>CHLORINATOR_ID\<close> and \<open>HEATPUMP_ID\<close> are imported from the package's \<open>const\<close> module; they
  are strings and are parameters here.
\<close>

definition NUMBER_DESCRIPTIONS_CHLOR ::
  "string \<Rightarrow> (NumberEntityDescription \<times> string list) list" where
  "NUMBER_DESCRIPTIONS_CHLOR CHLORINATOR_ID =
     [(\<lparr>key = ''chlor_output_control'', name = ''Chlorinator Output'', icon = ''mdi:knob'',
        native_unit_of_measurement = Some PERCENTAGE,
        native_min_value = 0, native_max_value = 100, native_step = 1, mode = SLIDER\<rparr>,
       [''devices'', CHLORINATOR_ID, ''config'', ''chlorOutput''])]"

definition NUMBER_DESCRIPTIONS_HEATPUMP ::
  "string \<Rightarrow> (NumberEntityDescription \<times> string list) list" where
  "NUMBER_DESCRIPTIONS_HEATPUMP HEATPUMP_ID =
     [(\<lparr>key = ''temperature_output_control'', name = ''Temperature Output'',
        icon = ''mdi:knob'', native_unit_of_measurement = Some CELSIUS,
        native_min_value = 5, native_max_value = 40, native_step = 1 / 2, mode = SLIDER\<rparr>,
       [''devices'', HEATPUMP_ID, ''config'', ''setpoint'']),
      (\<lparr>key = ''heat_mode'', name = ''heat_mode'', icon = ''mdi:knob'',
        native_unit_of_measurement = None,
        native_min_value = 0, native_max_value = 2, native_step = 1, mode = BOX\<rparr>,
       [''devices'', HEATPUMP_ID, ''config'', ''mode''])]"

section \<open>The number entity\<close>

text \<open>
  \<open>PoolSyncChlorOutputNumberEntity.__init__\<close> stores the description and the data path
  and derives the unique id from the coordinator's MAC address; it reads nothing else
  and does not fail.  The coordinator itself is shared, not owned: the operations below
  take its current state as an argument.
\<close>

record PoolSyncChlorOutputNumberEntity =
  entity_description :: NumberEntityDescription
  data_path :: "string list"
  unique_id :: string

definition new_entity ::
  "string \<Rightarrow> NumberEntityDescription \<Rightarrow> string list \<Rightarrow> PoolSyncChlorOutputNumberEntity" where
  "new_entity mac_address description path =
     \<lparr>entity_description = description, data_path = path,
      unique_id = mac_address @ ''_'' @ key description\<rparr>"

section \<open>Platform setup\<close>

text \<open>
  The list comprehension \<open>[key for key, value in deviceTypes.items() if value == t]\<close>
  followed by \<open>temp[0] if temp else "-1"\<close>.
\<close>

definition ids_of_type :: "(string \<times> json) list \<Rightarrow> string \<Rightarrow> string list" where
  "ids_of_type items t = map fst (filter (\<lambda>(k, v). v = JStr t) items)"

definition first_or_sentinel :: "string list \<Rightarrow> string" where
  "first_or_sentinel temp = (case temp of [] \<Rightarrow> ''-1'' | k # rest \<Rightarrow> k)"

text \<open>
  One pass of the loop over a description table: the device id is written into index 1
  of the path (\<open>data_path[1] = id\<close>) and the entity is constructed and appended.  The
  value the loop resolves under the path is only logged.  The list written is the one of
  the table, which the entity keeps; one run of setup is modelled, so the entity's path
  is the path as written in that run.
\<close>

definition make_entities ::
  "string \<Rightarrow> string \<Rightarrow> (NumberEntityDescription \<times> string list) list
     \<Rightarrow> PoolSyncChlorOutputNumberEntity list" where
  "make_entities mac_address device_id descriptions =
     map (\<lambda>(description, path). new_entity mac_address description (path[1 := device_id]))
       descriptions"

text \<open>
  The discovery of the device ids, between the guards and the two loops: the defaults,
  replaced by the scan of the \<open>deviceType\<close> dictionary when there is one.  The result is
  the pair \<open>(heatpump_id, chlor_id)\<close>.
\<close>

definition discover_device_ids :: "string \<Rightarrow> string \<Rightarrow> pydict \<Rightarrow> string \<times> string" where
  "discover_device_ids CHLORINATOR_ID HEATPUMP_ID d =
     (if d \<noteq> [] \<and> isinstance_dict (dict_get d ''deviceType'')
      then
        (let deviceTypes = dict_items (dict_get d ''deviceType'')
         in (first_or_sentinel (ids_of_type deviceTypes ''heatPump''),
             first_or_sentinel (ids_of_type deviceTypes ''chlorSync'')))
      else (HEATPUMP_ID, CHLORINATOR_ID))"

text \<open>
  \<open>async_setup_entry\<close>.  \<open>coordinator_data\<close> is \<open>coordinator.data\<close>: \<open>None\<close> or a
  dictionary.  The result is the list \<open>number_entities\<close>; \<open>async_add_entities\<close> is called
  with it exactly when it is not empty.
\<close>

definition async_setup_entry ::
  "string \<Rightarrow> string \<Rightarrow> string \<Rightarrow> pydict option \<Rightarrow> PoolSyncChlorOutputNumberEntity list" where
  "async_setup_entry CHLORINATOR_ID HEATPUMP_ID mac_address coordinator_data =
     (case coordinator_data of
        None \<Rightarrow> []
      | Some d \<Rightarrow>
          if d = [] then []
          else if \<not> isinstance_dict (dict_get d ''devices'') then []
          else if \<not> isinstance_dict (dict_get (dict_items (dict_get d ''devices'')) ''0'')
            then []
          else
            let (heatpump_id, chlor_id) = discover_device_ids CHLORINATOR_ID HEATPUMP_ID d
            in
              (if chlor_id \<noteq> ''-1''
               then make_entities mac_address chlor_id
                      (NUMBER_DESCRIPTIONS_CHLOR CHLORINATOR_ID)
               else [])
              @
              (if heatpump_id \<noteq> ''-1''
               then make_entities mac_address heatpump_id
                      (NUMBER_DESCRIPTIONS_HEATPUMP HEATPUMP_ID)
               else []))"

text \<open>The three guards at the head of \<open>async_setup_entry\<close>, as one predicate.\<close>

definition setup_guards_pass :: "pydict option \<Rightarrow> bool" where
  "setup_guards_pass coordinator_data =
     (case coordinator_data of
        None \<Rightarrow> False
      | Some d \<Rightarrow>
          d \<noteq> [] \<and> isinstance_dict (dict_get d ''devices'')
          \<and> isinstance_dict (dict_get (dict_items (dict_get d ''devices'')) ''0''))"

section \<open>Binary64 arithmetic\<close>

text \<open>
  Every arithmetic operation on Python floats computes the exact result and rounds it to
  the nearest binary64 number, ties to the even significand.  \<open>binary_exponent x\<close> is the
  integer \<open>e\<close> with \<open>2^e \<le> x < 2^(e+1)\<close> for a positive \<open>x\<close>; a binary64 number of that
  magnitude is a multiple of \<open>2^(e-52)\<close>, and of \<open>2^(-1074)\<close> in the subnormal range.  A
  rounded magnitude of \<open>2^1024\<close> or more is an infinity.
\<close>

definition pow2 :: "int \<Rightarrow> real" where
  "pow2 e = (if 0 \<le> e then 2 ^ nat e else 1 / 2 ^ nat (- e))"

function expo_up :: "real \<Rightarrow> int" where
  "expo_up x = (if x < 2 then 0 else expo_up (x / 2) + 1)"
  by pat_completeness auto
termination
proof (relation "measure (\<lambda>x. nat \<lfloor>x\<rfloor>)")
  show "wf (measure (\<lambda>x::real. nat \<lfloor>x\<rfloor>))" by simp
next
  fix x :: real
  assume a: "\<not> x < 2"
  have "of_int \<lfloor>x / 2\<rfloor> \<le> x / 2" by (rule of_int_floor_le)
  with a have "of_int (\<lfloor>x / 2\<rfloor> + 1) \<le> x" by simp
  then have "\<lfloor>x / 2\<rfloor> + 1 \<le> \<lfloor>x\<rfloor>" by (simp only: le_floor_iff)
  moreover have "0 \<le> \<lfloor>x / 2\<rfloor>" using a by simp
  ultimately have "nat \<lfloor>x / 2\<rfloor> < nat \<lfloor>x\<rfloor>" by linarith
  then show "(x / 2, x) \<in> measure (\<lambda>x. nat \<lfloor>x\<rfloor>)" by simp
qed

function expo_down :: "real \<Rightarrow> int" where
  "expo_down x = (if x \<le> 0 \<or> 1 \<le> x then 0 else expo_down (x * 2) - 1)"
  by pat_completeness auto
termination
proof (relation "measure (\<lambda>x. nat \<lfloor>1 / x\<rfloor>)")
  show "wf (measure (\<lambda>x::real. nat \<lfloor>1 / x\<rfloor>))" by simp
next
  fix x :: real
  assume "\<not> (x \<le> 0 \<or> 1 \<le> x)"
  then have x: "0 < x" "x < 1" by simp_all
  define y where "y = 1 / x"
  have y: "1 < y" using x by (simp add: y_def)
  have half: "1 / (x * 2) = y / 2" by (simp add: y_def)
  have "of_int (\<lfloor>y / 2\<rfloor> + 1) \<le> y"
  proof (cases "2 \<le> y")
    case True
    have "of_int \<lfloor>y / 2\<rfloor> \<le> y / 2" by (rule of_int_floor_le)
    with True show ?thesis by simp
  next
    case False
    then have "y / 2 < 1" by simp
    moreover have "0 \<le> y / 2" using y by simp
    ultimately have "\<lfloor>y / 2\<rfloor> = 0" by (simp add: floor_eq_iff)
    then show ?thesis using y by simp
  qed
  then have "\<lfloor>y / 2\<rfloor> + 1 \<le> \<lfloor>y\<rfloor>" by (simp only: le_floor_iff)
  moreover have "0 \<le> \<lfloor>y / 2\<rfloor>" using y by simp
  ultimately have "nat \<lfloor>y / 2\<rfloor> < nat \<lfloor>y\<rfloor>" by linarith
  then show "(x * 2, x) \<in> measure (\<lambda>x. nat \<lfloor>1 / x\<rfloor>)"
    unfolding in_measure half y_def [symmetric] .
qed

declare expo_up.simps [simp del] expo_down.simps [simp del]

definition binary_exponent :: "real \<Rightarrow> int" where
  "binary_exponent x = (if 1 \<le> x then expo_up x else expo_down x)"

definition round_half_even :: "real \<Rightarrow> int" where
  "round_half_even t =
     (let n = \<lfloor>t\<rfloor>; r = t - of_int n
      in if r < 1 / 2 then n
         else if 1 / 2 < r then n + 1
         else if even n then n else n + 1)"

definition binary64 :: "real \<Rightarrow> pyfloat" where
  "binary64 x =
     (if x = 0 then Finite 0
      else
        let e = max (binary_exponent \<bar>x\<bar>) (- 1022);
            ulp = pow2 (e - 52);
            y = of_int (round_half_even (\<bar>x\<bar> / ulp)) * ulp
        in if pow2 1024 \<le> y then (if 0 < x then PInf else NInf)
           else Finite (if 0 < x then y else - y))"

section \<open>Exceptions\<close>

text \<open>
  An exception is its class and the text \<open>str(e)\<close>.  \<open>HomeAssistantError\<close> is the
  platform's error class; \<open>OtherHomeAssistantError n\<close> stands for its subclass named
  \<open>n\<close>, and \<open>OtherException n\<close> for any further subclass of \<open>Exception\<close>.  The
  failures of an operation are instances of \<open>Exception\<close>; what Python keeps outside that
  class (task cancellation, keyboard interrupt, interpreter exit) is not represented, and
  no clause of this platform catches it.
\<close>

datatype exception_class =
    HomeAssistantError
  | OtherHomeAssistantError string
  | ValueError
  | TypeError
  | OverflowError
  | IndexError
  | ZeroDivisionError
  | OtherException string

datatype py_exception = Raised exception_class string

fun exception_class_of :: "py_exception \<Rightarrow> exception_class" where
  "exception_class_of (Raised c m) = c"

fun str_of :: "py_exception \<Rightarrow> string" where
  "str_of (Raised c m) = m"

text \<open>What \<open>except HomeAssistantError\<close> catches.\<close>

fun isinstance_HomeAssistantError :: "py_exception \<Rightarrow> bool" where
  "isinstance_HomeAssistantError (Raised HomeAssistantError m) = True"
| "isinstance_HomeAssistantError (Raised (OtherHomeAssistantError n) m) = True"
| "isinstance_HomeAssistantError e = False"

text \<open>What \<open>except (ValueError, TypeError)\<close> catches.\<close>

fun isinstance_ValueError_or_TypeError :: "py_exception \<Rightarrow> bool" where
  "isinstance_ValueError_or_TypeError (Raised ValueError m) = True"
| "isinstance_ValueError_or_TypeError (Raised TypeError m) = True"
| "isinstance_ValueError_or_TypeError e = False"

section \<open>Float operations and conversions\<close>

fun float_add :: "pyfloat \<Rightarrow> pyfloat \<Rightarrow> pyfloat" where
  "float_add (Finite x) (Finite y) = binary64 (x + y)"
| "float_add NaN b = NaN"
| "float_add a NaN = NaN"
| "float_add PInf NInf = NaN"
| "float_add NInf PInf = NaN"
| "float_add PInf b = PInf"
| "float_add NInf b = NInf"
| "float_add a PInf = PInf"
| "float_add a NInf = NInf"

fun float_neg :: "pyfloat \<Rightarrow> pyfloat" where
  "float_neg (Finite x) = Finite (- x)"
| "float_neg PInf = NInf"
| "float_neg NInf = PInf"
| "float_neg NaN = NaN"

definition float_sub :: "pyfloat \<Rightarrow> pyfloat \<Rightarrow> pyfloat" where
  "float_sub a b = float_add a (float_neg b)"

text \<open>The sign of a float that is not NaN: \<open>1\<close>, \<open>0\<close> or \<open>-1\<close>.\<close>

fun float_sign :: "pyfloat \<Rightarrow> int" where
  "float_sign (Finite x) = (if 0 < x then 1 else if x < 0 then - 1 else 0)"
| "float_sign PInf = 1"
| "float_sign NInf = - 1"
| "float_sign NaN = 0"

definition signed_infinity :: "int \<Rightarrow> pyfloat" where
  "signed_infinity s = (if s = 0 then NaN else if 0 < s then PInf else NInf)"

fun float_mul :: "pyfloat \<Rightarrow> pyfloat \<Rightarrow> pyfloat" where
  "float_mul (Finite x) (Finite y) = binary64 (x * y)"
| "float_mul NaN b = NaN"
| "float_mul a NaN = NaN"
| "float_mul a b = signed_infinity (float_sign a * float_sign b)"

text \<open>\<open>a / b\<close> raises \<open>ZeroDivisionError\<close> when \<open>b\<close> is zero.\<close>

fun float_truediv :: "pyfloat \<Rightarrow> pyfloat \<Rightarrow> py_exception + pyfloat" where
  "float_truediv a (Finite y) =
     (if y = 0 then Inl (Raised ZeroDivisionError ''float division by zero'')
      else case a of
          Finite x \<Rightarrow> Inr (binary64 (x / y))
        | NaN \<Rightarrow> Inr NaN
        | a \<Rightarrow> Inr (signed_infinity (float_sign a * float_sign (Finite y))))"
| "float_truediv a NaN = Inr NaN"
| "float_truediv (Finite x) b = Inr (Finite 0)"
| "float_truediv a b = Inr NaN"

text \<open>
  \<open>float(i)\<close> for an integer rounds to the nearest binary64 number and raises
  \<open>OverflowError\<close> when that is out of range.
\<close>

definition float_of_int :: "int \<Rightarrow> py_exception + pyfloat" where
  "float_of_int i =
     (case binary64 (of_int i) of
        Finite x \<Rightarrow> Inr (Finite x)
      | a \<Rightarrow> Inl (Raised OverflowError ''int too large to convert to float''))"

text \<open>
  The built-in \<open>float(value)\<close> on a value of the state tree.  Parsing a string is the
  interpreter's: \<open>float_of_str s\<close> is the parsed float, or \<open>None\<close> where \<open>float(s)\<close> raises
  \<open>ValueError\<close>.
\<close>

fun py_float :: "(string \<Rightarrow> pyfloat option) \<Rightarrow> json \<Rightarrow> py_exception + pyfloat" where
  "py_float float_of_str (JFloat x) = Inr x"
| "py_float float_of_str (JInt i) = float_of_int i"
| "py_float float_of_str (JBool b) = Inr (Finite (if b then 1 else 0))"
| "py_float float_of_str (JStr s) =
     (case float_of_str s of
        Some x \<Rightarrow> Inr x
      | None \<Rightarrow> Inl (Raised ValueError (''could not convert string to float: '' @ s)))"
| "py_float float_of_str v =
     Inl (Raised TypeError ''float() argument must be a string or a real number'')"

text \<open>
  The built-in \<open>int(x)\<close> on a float truncates toward zero; it raises \<open>ValueError\<close> on NaN
  and \<open>OverflowError\<close> on an infinity.
\<close>

fun py_int :: "pyfloat \<Rightarrow> py_exception + int" where
  "py_int (Finite x) = Inr (if 0 \<le> x then \<lfloor>x\<rfloor> else \<lceil>x\<rceil>)"
| "py_int NaN = Inl (Raised ValueError ''cannot convert float NaN to integer'')"
| "py_int a = Inl (Raised OverflowError ''cannot convert float infinity to integer'')"

text \<open>\<open>xs[i]\<close> for a non-negative literal index.\<close>

definition list_index :: "'a list \<Rightarrow> nat \<Rightarrow> py_exception + 'a" where
  "list_index xs i =
     (if i < length xs then Inr (xs ! i) else Inl (Raised IndexError ''list index out of range''))"

section \<open>The coordinator and the outside world\<close>

text \<open>
  The fields of \<open>PoolSyncDataUpdateCoordinator\<close> that the number platform reads:
  \<open>data\<close>, \<open>_password\<close> (\<open>None\<close> also stands for a missing attribute) and \<open>mac_address\<close>.
  The two operations the platform awaits are the coordinator's too; each is given by its
  outcome, an exception raised or a value returned.
\<close>

record PoolSyncDataUpdateCoordinator =
  data :: "pydict option"
  password :: "string option"
  mac_address :: string
  api_client_request_patch :: "string \<Rightarrow> string \<Rightarrow> int \<Rightarrow> string \<Rightarrow> py_exception + json"
  async_request_refresh :: "py_exception + unit"

text \<open>What an operation does to the outside, in order: log records and awaited calls.\<close>

datatype log_level = DEBUG | INFO | WARNING | ERROR

datatype event =
    Log log_level
  | RequestPatch string string int string
  | RequestRefresh

section \<open>The path resolver\<close>

text \<open>
  Modelled from the spec: \<open>_get_value_from_path\<close> is imported from the package's
  \<open>sensor\<close> module.  The resolver traverses the path key by key; where the current node
  is not a mapping or the key is not present it returns Absent; it returns the terminal
  value, and Absent when that value is null or when the path is empty.
\<close>

fun traverse :: "json \<Rightarrow> string list \<Rightarrow> json option" where
  "traverse node [] = Some node"
| "traverse (JDict d) (k # ks) =
     (case map_of d k of None \<Rightarrow> None | Some v \<Rightarrow> traverse v ks)"
| "traverse node (k # ks) = None"

definition get_value_from_path :: "pydict option \<Rightarrow> string list \<Rightarrow> json option" where
  "get_value_from_path tree path =
     (if path = [] then None
      else case traverse (case tree of None \<Rightarrow> JNull | Some d \<Rightarrow> JDict d) path of
          None \<Rightarrow> None
        | Some JNull \<Rightarrow> None
        | Some v \<Rightarrow> Some v)"

section \<open>Reading and writing a number entity\<close>

text \<open>
  The body of the \<open>try\<close> block of \<open>native_value\<close>: \<open>float(value)\<close>, then
  \<open>(num_value - 32) * 5 / 9\<close> for a Celsius entity.
\<close>

definition fahrenheit_to_celsius :: "pyfloat \<Rightarrow> py_exception + pyfloat" where
  "fahrenheit_to_celsius num_value =
     float_truediv (float_mul (float_sub num_value (Finite 32)) (Finite 5)) (Finite 9)"

definition convert_read ::
  "(string \<Rightarrow> pyfloat option) \<Rightarrow> unit_of_measurement option \<Rightarrow> json
     \<Rightarrow> py_exception + pyfloat" where
  "convert_read float_of_str unit v =
     (case py_float float_of_str v of
        Inl e \<Rightarrow> Inl e
      | Inr num_value \<Rightarrow>
          if unit = Some CELSIUS then fahrenheit_to_celsius num_value else Inr num_value)"

text \<open>
  \<open>native_value\<close>: the log records written and either the exception that leaves the
  property or the value returned (\<open>None\<close> or a float).
\<close>

definition native_value ::
  "(string \<Rightarrow> pyfloat option) \<Rightarrow> PoolSyncDataUpdateCoordinator
     \<Rightarrow> PoolSyncChlorOutputNumberEntity \<Rightarrow> event list \<times> (py_exception + pyfloat option)" where
  "native_value float_of_str coordinator self =
     (case get_value_from_path (data coordinator) (data_path self) of
        None \<Rightarrow> ([], Inr None)
      | Some v \<Rightarrow>
          (case convert_read float_of_str
                  (native_unit_of_measurement (entity_description self)) v of
             Inr num_value \<Rightarrow> ([], Inr (Some num_value))
           | Inl e \<Rightarrow>
               if isinstance_ValueError_or_TypeError e then ([Log ERROR], Inr None)
               else ([], Inl e)))"

text \<open>
  The conversion at the head of \<open>async_set_native_value\<close>: \<open>(new_value * 9 / 5) + 32\<close>
  for a Celsius entity.
\<close>

definition celsius_to_fahrenheit :: "pyfloat \<Rightarrow> py_exception + pyfloat" where
  "celsius_to_fahrenheit new_value =
     (case float_truediv (float_mul new_value (Finite 9)) (Finite 5) of
        Inl e \<Rightarrow> Inl e
      | Inr q \<Rightarrow> Inr (float_add q (Finite 32)))"

definition convert_write ::
  "unit_of_measurement option \<Rightarrow> pyfloat \<Rightarrow> py_exception + pyfloat" where
  "convert_write unit v = (if unit = Some CELSIUS then celsius_to_fahrenheit v else Inr v)"

text \<open>The two errors the write raises itself, under the names the specification uses.\<close>

definition CredentialUnavailable :: py_exception where
  "CredentialUnavailable = Raised HomeAssistantError ''API password not available to set value.''"

definition WriteFailed :: "py_exception \<Rightarrow> py_exception" where
  "WriteFailed e = Raised HomeAssistantError (''Failed to set value: '' @ str_of e)"

text \<open>
  The two \<open>except\<close> clauses of the write: a \<open>HomeAssistantError\<close> is re-raised as it is,
  any other exception is logged and raised again inside a new \<open>HomeAssistantError\<close>.
\<close>

definition write_except :: "py_exception \<Rightarrow> event list \<times> (py_exception + unit)" where
  "write_except e =
     (if isinstance_HomeAssistantError e then ([], Inl e)
      else ([Log ERROR], Inl (WriteFailed e)))"

text \<open>The \<open>try\<close> block of the write: the patch request, then the refresh request.\<close>

definition write_try ::
  "PoolSyncDataUpdateCoordinator \<Rightarrow> string \<Rightarrow> string \<Rightarrow> int \<Rightarrow> string
     \<Rightarrow> event list \<times> (py_exception + unit)" where
  "write_try coordinator deviceId keyId new_value current_api_password =
     (case api_client_request_patch coordinator deviceId keyId new_value current_api_password of
        Inl e \<Rightarrow>
          ([Log DEBUG, RequestPatch deviceId keyId new_value current_api_password]
             @ fst (write_except e),
           snd (write_except e))
      | Inr api_response \<Rightarrow>
          (case async_request_refresh coordinator of
             Inl e \<Rightarrow>
               ([Log DEBUG, RequestPatch deviceId keyId new_value current_api_password,
                 Log INFO, Log DEBUG, RequestRefresh] @ fst (write_except e),
                snd (write_except e))
           | Inr u \<Rightarrow>
               ([Log DEBUG, RequestPatch deviceId keyId new_value current_api_password,
                 Log INFO, Log DEBUG, RequestRefresh, Log INFO],
                Inr ())))"

text \<open>
  \<open>async_set_native_value\<close>: the events in order, and either the exception raised to the
  caller or the normal return.
\<close>

definition async_set_native_value ::
  "PoolSyncDataUpdateCoordinator \<Rightarrow> PoolSyncChlorOutputNumberEntity \<Rightarrow> pyfloat
     \<Rightarrow> event list \<times> (py_exception + unit)" where
  "async_set_native_value coordinator self v =
     (case convert_write (native_unit_of_measurement (entity_description self)) v of
        Inl e \<Rightarrow> ([], Inl e)
      | Inr converted \<Rightarrow>
     (case py_int converted of
        Inl e \<Rightarrow> ([], Inl e)
      | Inr new_value \<Rightarrow>
     (case list_index (data_path self) 1 of
        Inl e \<Rightarrow> ([Log INFO], Inl e)
      | Inr deviceId \<Rightarrow>
     (case list_index (data_path self) 3 of
        Inl e \<Rightarrow> ([Log INFO], Inl e)
      | Inr keyId \<Rightarrow>
     (case password coordinator of
        None \<Rightarrow> ([Log INFO, Log INFO, Log ERROR], Inl CredentialUnavailable)
      | Some current_api_password \<Rightarrow>
          if current_api_password = []
          then ([Log INFO, Log INFO, Log ERROR], Inl CredentialUnavailable)
          else
            let r = write_try coordinator deviceId keyId new_value current_api_password
            in ([Log INFO, Log INFO, Log DEBUG] @ fst r, snd r))))))"

text \<open>The awaited calls among the events of a run.\<close>

fun is_call :: "event \<Rightarrow> bool" where
  "is_call (Log l) = False"
| "is_call c = True"

definition calls :: "event list \<Rightarrow> event list" where
  "calls evs = filter is_call evs"

section \<open>Properties of setup\<close>

lemma dict_get_mapping:
  "isinstance_dict (dict_get d k) \<longleftrightarrow> (\<exists>m. map_of d k = Some (JDict m))"
  by (cases "map_of d k"; cases "the (map_of d k)") (auto simp: dict_get_def)

lemma dict_get_Some: "map_of d k = Some v \<Longrightarrow> dict_get d k = v"
  by (simp add: dict_get_def)

lemma setup_guards_pass_iff:
  "setup_guards_pass coordinator_data \<longleftrightarrow>
     (\<exists>d devs dev0. coordinator_data = Some d \<and> d \<noteq> []
        \<and> map_of d ''devices'' = Some (JDict devs) \<and> map_of devs ''0'' = Some (JDict dev0))"
  by (cases coordinator_data) (auto simp: setup_guards_pass_def dict_get_mapping dict_get_Some)

lemma setup_guarded:
  "\<not> setup_guards_pass coordinator_data \<Longrightarrow>
     async_setup_entry CH HP mac coordinator_data = []"
  by (cases coordinator_data) (auto simp: setup_guards_pass_def async_setup_entry_def)

lemma setup_passed:
  "setup_guards_pass (Some d) \<Longrightarrow>
     async_setup_entry CH HP mac (Some d) =
       (if snd (discover_device_ids CH HP d) \<noteq> ''-1''
        then make_entities mac (snd (discover_device_ids CH HP d)) (NUMBER_DESCRIPTIONS_CHLOR CH)
        else [])
       @ (if fst (discover_device_ids CH HP d) \<noteq> ''-1''
          then make_entities mac (fst (discover_device_ids CH HP d)) (NUMBER_DESCRIPTIONS_HEATPUMP HP)
          else [])"
  by (auto simp: setup_guards_pass_def async_setup_entry_def split: prod.splits)

text \<open>
  Claim C10.  Setup constructs no number entity unless the coordinator's state tree is a
  non-empty dictionary whose \<open>"devices"\<close> entry is a dictionary that has a dictionary under
  the key \<open>"0"\<close>: when any of the three checks fails, \<open>async_setup_entry\<close> returns with an
  empty list of entities, whatever the default ids are.
\<close>

theorem setup_constructs_nothing_unless_device_0:
  "\<not> (\<exists>d devs dev0. coordinator_data = Some d \<and> d \<noteq> []
        \<and> map_of d ''devices'' = Some (JDict devs) \<and> map_of devs ''0'' = Some (JDict dev0))
   \<Longrightarrow> async_setup_entry CH HP mac coordinator_data = []"
  by (rule setup_guarded) (simp only: setup_guards_pass_iff not_False_eq_True)

lemma first_match:
  "\<forall>(k', v) \<in> set pre. v \<noteq> JStr t \<Longrightarrow>
     first_or_sentinel (ids_of_type (pre @ (k, JStr t) # post) t) = k"
  by (induction pre) (auto simp: first_or_sentinel_def ids_of_type_def)

lemma no_match:
  "\<forall>(k', v) \<in> set items. v \<noteq> JStr t \<Longrightarrow> first_or_sentinel (ids_of_type items t) = ''-1''"
  by (induction items) (auto simp: first_or_sentinel_def ids_of_type_def)

lemma discover_with_mapping:
  "d \<noteq> [] \<Longrightarrow> map_of d ''deviceType'' = Some (JDict dt) \<Longrightarrow>
     discover_device_ids CH HP d =
       (first_or_sentinel (ids_of_type dt ''heatPump''),
        first_or_sentinel (ids_of_type dt ''chlorSync''))"
  by (simp add: discover_device_ids_def dict_get_Some)

lemma discover_without_mapping:
  "\<forall>dt. map_of d ''deviceType'' \<noteq> Some (JDict dt) \<Longrightarrow>
     discover_device_ids CH HP d = (HP, CH)"
  by (simp add: discover_device_ids_def dict_get_mapping)

lemma setup_keys:
  assumes "e \<in> set (async_setup_entry CH HP mac (Some d))"
  shows "(key (entity_description e) = ''chlor_output_control''
        \<and> snd (discover_device_ids CH HP d) \<noteq> ''-1'')
     \<or> (key (entity_description e) \<in> {''temperature_output_control'', ''heat_mode''}
        \<and> fst (discover_device_ids CH HP d) \<noteq> ''-1'')"
proof (cases "setup_guards_pass (Some d)")
  case False
  then show ?thesis using setup_guarded [OF False, of CH HP mac] assms by simp
next
  case True
  then show ?thesis
    using assms
    by (auto simp: setup_passed make_entities_def new_entity_def
        NUMBER_DESCRIPTIONS_CHLOR_def NUMBER_DESCRIPTIONS_HEATPUMP_def split: if_splits)
qed

lemma setup_passed_paths:
  assumes "setup_guards_pass (Some d)"
  shows "map (\<lambda>e. (key (entity_description e), data_path e))
           (async_setup_entry CH HP mac (Some d))
         = (if snd (discover_device_ids CH HP d) \<noteq> ''-1''
            then [(''chlor_output_control'',
                   [''devices'', snd (discover_device_ids CH HP d), ''config'', ''chlorOutput''])]
            else [])
           @ (if fst (discover_device_ids CH HP d) \<noteq> ''-1''
              then [(''temperature_output_control'',
                     [''devices'', fst (discover_device_ids CH HP d), ''config'', ''setpoint'']),
                    (''heat_mode'',
                     [''devices'', fst (discover_device_ids CH HP d), ''config'', ''mode''])]
              else [])"
  by (simp add: setup_passed [OF assms] make_entities_def new_entity_def
      NUMBER_DESCRIPTIONS_CHLOR_def NUMBER_DESCRIPTIONS_HEATPUMP_def)

lemma setup_example_5_7:
  "map (\<lambda>e. (key (entity_description e), data_path e))
     (async_setup_entry CH HP mac
        (Some [(''devices'', JDict [(''0'', JDict [])]),
               (''deviceType'',
                JDict [(''5'', JStr ''chlorSync''), (''7'', JStr ''heatPump'')])]))
   = [(''chlor_output_control'', [''devices'', ''5'', ''config'', ''chlorOutput'']),
      (''temperature_output_control'', [''devices'', ''7'', ''config'', ''setpoint'']),
      (''heat_mode'', [''devices'', ''7'', ''config'', ''mode''])]"
  by (simp add: async_setup_entry_def discover_device_ids_def dict_get_def ids_of_type_def
      first_or_sentinel_def make_entities_def new_entity_def
      NUMBER_DESCRIPTIONS_CHLOR_def NUMBER_DESCRIPTIONS_HEATPUMP_def)

text \<open>
  Claim C7.  For a state tree with a \<open>deviceType\<close> dictionary, setup uses as heat-pump id
  the first id, in the dictionary's order, whose type string is \<open>"heatPump"\<close>, and as
  chlorinator id the first whose type string is \<open>"chlorSync"\<close>; an id is the sentinel
  \<open>"-1"\<close> when no entry has the type.  When the tree passes the guards, the entities that
  setup constructs are the chlorinator control on the chlorinator id and the two
  heat-pump controls on the heat-pump id, each device's controls being left out when its
  id is \<open>"-1"\<close>; when the guards fail nothing is constructed.  So with no matching id no
  control of that device type is constructed.  On a tree with
  \<open>{"5": "chlorSync", "7": "heatPump"}\<close> the chlorinator control is on id \<open>"5"\<close> and the
  heat-pump controls are on id \<open>"7"\<close>.
\<close>

theorem device_id_discovery:
  assumes "map_of d ''deviceType'' = Some (JDict dt)"
  shows
    "(\<exists>hp ch.
        (\<forall>pre k post. dt = pre @ (k, JStr ''heatPump'') # post
            \<and> (\<forall>(k', v) \<in> set pre. v \<noteq> JStr ''heatPump'')
          \<longrightarrow> hp = k)
        \<and> ((\<forall>(k, v) \<in> set dt. v \<noteq> JStr ''heatPump'') \<longrightarrow> hp = ''-1'')
        \<and> (\<forall>pre k post. dt = pre @ (k, JStr ''chlorSync'') # post
            \<and> (\<forall>(k', v) \<in> set pre. v \<noteq> JStr ''chlorSync'')
          \<longrightarrow> ch = k)
        \<and> ((\<forall>(k, v) \<in> set dt. v \<noteq> JStr ''chlorSync'') \<longrightarrow> ch = ''-1'')
        \<and> map (\<lambda>e. (key (entity_description e), data_path e))
            (async_setup_entry CH HP mac (Some d))
          = (if \<exists>devs dev0. map_of d ''devices'' = Some (JDict devs)
                  \<and> map_of devs ''0'' = Some (JDict dev0)
             then
               (if ch \<noteq> ''-1''
                then [(''chlor_output_control'', [''devices'', ch, ''config'', ''chlorOutput''])]
                else [])
               @ (if hp \<noteq> ''-1''
                  then [(''temperature_output_control'',
                         [''devices'', hp, ''config'', ''setpoint'']),
                        (''heat_mode'', [''devices'', hp, ''config'', ''mode''])]
                  else [])
             else []))
     \<and> ((\<forall>(k, v) \<in> set dt. v \<noteq> JStr ''heatPump'')
        \<longrightarrow> (\<forall>e \<in> set (async_setup_entry CH HP mac (Some d)).
                key (entity_description e) \<notin> {''temperature_output_control'', ''heat_mode''}))
     \<and> ((\<forall>(k, v) \<in> set dt. v \<noteq> JStr ''chlorSync'')
        \<longrightarrow> (\<forall>e \<in> set (async_setup_entry CH HP mac (Some d)).
                key (entity_description e) \<noteq> ''chlor_output_control''))
     \<and> map (\<lambda>e. (key (entity_description e), data_path e))
          (async_setup_entry CH HP mac
             (Some [(''devices'', JDict [(''0'', JDict [])]),
                    (''deviceType'',
                     JDict [(''5'', JStr ''chlorSync''), (''7'', JStr ''heatPump'')])]))
        = [(''chlor_output_control'', [''devices'', ''5'', ''config'', ''chlorOutput'']),
           (''temperature_output_control'', [''devices'', ''7'', ''config'', ''setpoint'']),
           (''heat_mode'', [''devices'', ''7'', ''config'', ''mode''])]"
proof -
  have ne: "d \<noteq> []" using assms by auto
  note disc = discover_with_mapping [OF ne assms, of CH HP]
  define hp where "hp = fst (discover_device_ids CH HP d)"
  define ch where "ch = snd (discover_device_ids CH HP d)"
  have hp1: "hp = k"
    if "dt = pre @ (k, JStr ''heatPump'') # post \<and> (\<forall>(k', v) \<in> set pre. v \<noteq> JStr ''heatPump'')"
    for pre k post
    using that first_match [of pre "''heatPump''" k post] by (simp add: disc hp_def)
  have hp2: "hp = ''-1''" if "\<forall>(k, v) \<in> set dt. v \<noteq> JStr ''heatPump''"
    using no_match [OF that] by (simp add: disc hp_def)
  have ch1: "ch = k"
    if "dt = pre @ (k, JStr ''chlorSync'') # post \<and> (\<forall>(k', v) \<in> set pre. v \<noteq> JStr ''chlorSync'')"
    for pre k post
    using that first_match [of pre "''chlorSync''" k post] by (simp add: disc ch_def)
  have ch2: "ch = ''-1''" if "\<forall>(k, v) \<in> set dt. v \<noteq> JStr ''chlorSync''"
    using no_match [OF that] by (simp add: disc ch_def)
  have built: "map (\<lambda>e. (key (entity_description e), data_path e))
            (async_setup_entry CH HP mac (Some d))
          = (if \<exists>devs dev0. map_of d ''devices'' = Some (JDict devs)
                  \<and> map_of devs ''0'' = Some (JDict dev0)
             then
               (if ch \<noteq> ''-1''
                then [(''chlor_output_control'', [''devices'', ch, ''config'', ''chlorOutput''])]
                else [])
               @ (if hp \<noteq> ''-1''
                  then [(''temperature_output_control'',
                         [''devices'', hp, ''config'', ''setpoint'']),
                        (''heat_mode'', [''devices'', hp, ''config'', ''mode''])]
                  else [])
             else [])"
  proof (cases "setup_guards_pass (Some d)")
    case True
    then have "\<exists>devs dev0. map_of d ''devices'' = Some (JDict devs)
        \<and> map_of devs ''0'' = Some (JDict dev0)"
      by (simp only: setup_guards_pass_iff) blast
    then show ?thesis
      unfolding hp_def ch_def by (simp only: setup_passed_paths [OF True] if_True)
  next
    case False
    then have "\<not> (\<exists>devs dev0. map_of d ''devices'' = Some (JDict devs)
        \<and> map_of devs ''0'' = Some (JDict dev0))"
      using ne by (simp only: setup_guards_pass_iff) blast
    then show ?thesis by (simp add: setup_guarded [OF False])
  qed
  have nohp: "\<forall>e \<in> set (async_setup_entry CH HP mac (Some d)).
            key (entity_description e) \<notin> {''temperature_output_control'', ''heat_mode''}"
    if "\<forall>(k, v) \<in> set dt. v \<noteq> JStr ''heatPump''"
    using hp2 [OF that] unfolding hp_def by (auto dest: setup_keys)
  have noch: "\<forall>e \<in> set (async_setup_entry CH HP mac (Some d)).
            key (entity_description e) \<noteq> ''chlor_output_control''"
    if "\<forall>(k, v) \<in> set dt. v \<noteq> JStr ''chlorSync''"
    using ch2 [OF that] unfolding ch_def by (auto dest: setup_keys)
  have "\<exists>hp ch.
        (\<forall>pre k post. dt = pre @ (k, JStr ''heatPump'') # post
            \<and> (\<forall>(k', v) \<in> set pre. v \<noteq> JStr ''heatPump'')
          \<longrightarrow> hp = k)
        \<and> ((\<forall>(k, v) \<in> set dt. v \<noteq> JStr ''heatPump'') \<longrightarrow> hp = ''-1'')
        \<and> (\<forall>pre k post. dt = pre @ (k, JStr ''chlorSync'') # post
            \<and> (\<forall>(k', v) \<in> set pre. v \<noteq> JStr ''chlorSync'')
          \<longrightarrow> ch = k)
        \<and> ((\<forall>(k, v) \<in> set dt. v \<noteq> JStr ''chlorSync'') \<longrightarrow> ch = ''-1'')
        \<and> map (\<lambda>e. (key (entity_description e), data_path e))
            (async_setup_entry CH HP mac (Some d))
          = (if \<exists>devs dev0. map_of d ''devices'' = Some (JDict devs)
                  \<and> map_of devs ''0'' = Some (JDict dev0)
             then
               (if ch \<noteq> ''-1''
                then [(''chlor_output_control'', [''devices'', ch, ''config'', ''chlorOutput''])]
                else [])
               @ (if hp \<noteq> ''-1''
                  then [(''temperature_output_control'',
                         [''devices'', hp, ''config'', ''setpoint'']),
                        (''heat_mode'', [''devices'', hp, ''config'', ''mode''])]
                  else [])
             else [])"
    apply (rule exI [of _ hp])
    apply (rule exI [of _ ch])
    apply (intro conjI allI impI)
        apply (erule hp1)
       apply (erule hp2)
      apply (erule ch1)
     apply (erule ch2)
    apply (rule built)
    done
  moreover note setup_example_5_7 [of CH HP mac]
  ultimately show ?thesis using nohp noch by (intro conjI impI) assumption+
qed

theorem device_id_discovery_witness:
  "map (\<lambda>e. (key (entity_description e), data_path e))
     (async_setup_entry ''0'' ''1'' ''mac''
        (Some [(''devices'', JDict [(''0'', JDict [])]),
               (''deviceType'',
                JDict [(''5'', JStr ''chlorSync''), (''9'', JStr ''chlorSync'')])]))
   = [(''chlor_output_control'', [''devices'', ''5'', ''config'', ''chlorOutput''])]"
proof -
  let ?dt = "[(''5'', JStr ''chlorSync''), (''9'', JStr ''chlorSync'')]"
  let ?d = "[(''devices'', JDict [(''0'', JDict [])]), (''deviceType'', JDict ?dt)]"
  have h: "map_of ?d ''deviceType'' = Some (JDict ?dt)" by simp
  note t = device_id_discovery [OF h, of "''0''" "''1''" "''mac''", THEN conjunct1]
  then obtain hp ch where
    hp2: "(\<forall>(k, v) \<in> set ?dt. v \<noteq> JStr ''heatPump'') \<longrightarrow> hp = ''-1''"
    and ch1: "\<forall>pre k post. ?dt = pre @ (k, JStr ''chlorSync'') # post
            \<and> (\<forall>(k', v) \<in> set pre. v \<noteq> JStr ''chlorSync'')
          \<longrightarrow> ch = k"
    and built: "map (\<lambda>e. (key (entity_description e), data_path e))
            (async_setup_entry ''0'' ''1'' ''mac'' (Some ?d))
          = (if \<exists>devs dev0. map_of ?d ''devices'' = Some (JDict devs)
                  \<and> map_of devs ''0'' = Some (JDict dev0)
             then
               (if ch \<noteq> ''-1''
                then [(''chlor_output_control'', [''devices'', ch, ''config'', ''chlorOutput''])]
                else [])
               @ (if hp \<noteq> ''-1''
                  then [(''temperature_output_control'',
                         [''devices'', hp, ''config'', ''setpoint'']),
                        (''heat_mode'', [''devices'', hp, ''config'', ''mode''])]
                  else [])
             else [])"
    by (elim exE conjE)
  have "\<forall>(k, v) \<in> set ?dt. v \<noteq> JStr ''heatPump''" by simp
  with hp2 have hp: "hp = ''-1''" by (rule mp)
  have sp: "?dt = [] @ (''5'', JStr ''chlorSync'') # [(''9'', JStr ''chlorSync'')]
      \<and> (\<forall>(k', v) \<in> set []. v \<noteq> JStr ''chlorSync'')"
    by simp
  have ch: "ch = ''5''" by (rule ch1 [rule_format, OF sp])
  show ?thesis unfolding built hp ch by simp
qed

text \<open>
  Claim C9, as stated, fails where the guards of setup fail: a state tree without a
  \<open>deviceType\<close> dictionary whose \<open>"devices"\<close> dictionary has no key \<open>"0"\<close> makes setup
  return before the default ids are used, and no control is constructed.
\<close>

theorem setup_without_deviceType_guard_counterexample:
  "\<not> isinstance_dict (dict_get [(''devices'', JDict [(''1'', JDict [])]), (''deviceType'', JNull)]
        ''deviceType'')
   \<and> async_setup_entry ''0'' ''1'' ''mac''
        (Some [(''devices'', JDict [(''1'', JDict [])]), (''deviceType'', JNull)]) = []"
  by (simp add: async_setup_entry_def dict_get_def)

text \<open>
  Claim C9, amended.  When the state tree passes the three guards of setup and has no
  \<open>deviceType\<close> dictionary (the key is missing or its value is not a dictionary), setup
  uses the default ids: it constructs the chlorinator control on \<open>CHLORINATOR_ID\<close> and the
  two heat-pump controls on \<open>HEATPUMP_ID\<close>, each device's controls being left out only when
  its default id is itself the sentinel \<open>"-1"\<close>.
\<close>

theorem setup_without_deviceType_uses_default_ids:
  assumes "d \<noteq> []" and "map_of d ''devices'' = Some (JDict devs)"
    and "map_of devs ''0'' = Some (JDict dev0)"
    and "\<forall>dt. map_of d ''deviceType'' \<noteq> Some (JDict dt)"
  shows "map (\<lambda>e. (key (entity_description e), data_path e))
          (async_setup_entry CH HP mac (Some d))
        = (if CH \<noteq> ''-1''
           then [(''chlor_output_control'', [''devices'', CH, ''config'', ''chlorOutput''])]
           else [])
          @ (if HP \<noteq> ''-1''
             then [(''temperature_output_control'', [''devices'', HP, ''config'', ''setpoint'']),
                   (''heat_mode'', [''devices'', HP, ''config'', ''mode''])]
             else [])"
proof -
  have g: "setup_guards_pass (Some d)"
    using assms(1-3) by (simp only: setup_guards_pass_iff) blast
  have disc: "discover_device_ids CH HP d = (HP, CH)"
    by (rule discover_without_mapping) (rule assms(4))
  show ?thesis by (simp only: setup_passed_paths [OF g] disc fst_conv snd_conv)
qed

theorem setup_without_deviceType_uses_default_ids_witness:
  "map (\<lambda>e. (key (entity_description e), data_path e))
     (async_setup_entry ''0'' ''1'' ''mac'' (Some [(''devices'', JDict [(''0'', JDict [])])]))
   = [(''chlor_output_control'', [''devices'', ''0'', ''config'', ''chlorOutput'']),
      (''temperature_output_control'', [''devices'', ''1'', ''config'', ''setpoint'']),
      (''heat_mode'', [''devices'', ''1'', ''config'', ''mode''])]"
proof -
  let ?d = "[(''devices'', JDict [(''0'', JDict [])])]"
  have h1: "?d \<noteq> []" by simp
  have h2: "map_of ?d ''devices'' = Some (JDict [(''0'', JDict [])])" by simp
  have h3: "map_of [(''0'', JDict [])] ''0'' = Some (JDict [])" by simp
  have h4: "\<forall>dt. map_of ?d ''deviceType'' \<noteq> Some (JDict dt)" by simp
  from setup_without_deviceType_uses_default_ids [OF h1 h2 h3 h4, of "''0''" "''1''" "''mac''"]
  show ?thesis by simp
qed

theorem setup_constructs_nothing_unless_device_0_witness:
  "async_setup_entry ''0'' ''1'' ''mac'' (Some [(''devices'', JDict [(''1'', JDict [])])]) = []"
proof -
  have "\<not> (\<exists>d devs dev0.
          Some [(''devices'', JDict [(''1'', JDict [])])] = Some d \<and> d \<noteq> []
          \<and> map_of d ''devices'' = Some (JDict devs) \<and> map_of devs ''0'' = Some (JDict dev0))"
    by auto
  then show ?thesis by (rule setup_constructs_nothing_unless_device_0)
qed

section \<open>Properties of binary64 rounding\<close>

lemma pow2_powi: "pow2 e = 2 powi e"
  by (simp add: pow2_def power_int_def field_simps)

lemma pow2_pos: "0 < pow2 e"
  by (simp add: pow2_powi)

lemma pow2_add: "pow2 (a + b) = pow2 a * pow2 b"
  by (simp add: pow2_powi power_int_add)

lemma pow2_mono: "a \<le> b \<Longrightarrow> pow2 a \<le> pow2 b"
  by (simp add: pow2_powi power_int_increasing)

lemma pow2_strict_mono: "a < b \<Longrightarrow> pow2 a < pow2 b"
  by (simp add: pow2_powi power_int_strict_increasing)

lemma pow2_less_cancel: "pow2 a < pow2 b \<Longrightarrow> a < b"
  using pow2_mono [of b a] by (cases "a < b") simp_all

lemma pow2_0: "pow2 0 = 1"
  by (simp add: pow2_def)

lemma pow2_1: "pow2 1 = 2"
  by (simp add: pow2_def)

lemma pow2_Suc: "pow2 (e + 1) = 2 * pow2 e"
  by (simp add: pow2_add pow2_1)

lemma pow2_pred: "pow2 (e - 1) = pow2 e / 2"
  using pow2_Suc [of "e - 1"] by simp

lemma expo_up_bounds: "1 \<le> x \<Longrightarrow> pow2 (expo_up x) \<le> x \<and> x < pow2 (expo_up x + 1)"
proof (induction x rule: expo_up.induct)
  case (1 x)
  show ?case
  proof (cases "x < 2")
    case True
    with "1.prems" show ?thesis by (simp add: expo_up.simps [of x] pow2_0 pow2_1)
  next
    case False
    define e where "e = expo_up (x / 2)"
    have "1 \<le> x / 2" using False by simp
    with "1.IH" False have ih: "pow2 e \<le> x / 2 \<and> x / 2 < pow2 (e + 1)"
      unfolding e_def by blast
    have up: "expo_up x = e + 1" using False by (simp add: expo_up.simps [of x] e_def)
    have "pow2 (e + 1) \<le> x" using ih by (simp add: pow2_Suc)
    moreover have "pow2 (e + 1 + 1) = 2 * pow2 (e + 1)" by (rule pow2_Suc)
    then have "x < pow2 (e + 1 + 1)" using ih by simp
    ultimately show ?thesis by (simp only: up) 
  qed
qed

lemma expo_down_bounds:
  "0 < x \<Longrightarrow> x < 1 \<Longrightarrow> pow2 (expo_down x) \<le> x \<and> x < pow2 (expo_down x + 1)"
proof (induction x rule: expo_down.induct)
  case (1 x)
  define e where "e = expo_down (x * 2)"
  have down: "expo_down x = e - 1"
    using "1.prems" by (simp add: expo_down.simps [of x] e_def)
  have ih: "pow2 e \<le> x * 2 \<and> x * 2 < pow2 (e + 1)"
  proof (cases "x * 2 < 1")
    case True
    with "1.IH" "1.prems" show ?thesis unfolding e_def by simp
  next
    case False
    then have "e = 0" by (simp add: expo_down.simps [of "x * 2"] e_def)
    then show ?thesis using "1.prems" False by (simp add: pow2_0 pow2_1)
  qed
  have "pow2 (e - 1) \<le> x" using ih by (simp add: pow2_pred)
  moreover have "x < pow2 e" using ih by (simp add: pow2_Suc)
  then have "x < pow2 (e - 1 + 1)" by simp
  ultimately show ?case by (simp only: down)
qed

lemma binary_exponent_bounds:
  "0 < x \<Longrightarrow> pow2 (binary_exponent x) \<le> x \<and> x < pow2 (binary_exponent x + 1)"
  using expo_up_bounds [of x] expo_down_bounds [of x]
  by (cases "1 \<le> x") (simp_all add: binary_exponent_def)

lemma binary_exponent_unique:
  assumes "pow2 e \<le> x" and "x < pow2 (e + 1)"
  shows "binary_exponent x = e"
proof -
  have pos: "0 < x" using assms(1) pow2_pos [of e] by linarith
  note b = binary_exponent_bounds [OF pos]
  have "pow2 e < pow2 (binary_exponent x + 1)" using assms(1) b by linarith
  then have "e < binary_exponent x + 1" by (rule pow2_less_cancel)
  moreover have "pow2 (binary_exponent x) < pow2 (e + 1)" using assms(2) b by linarith
  then have "binary_exponent x < e + 1" by (rule pow2_less_cancel)
  ultimately show ?thesis by simp
qed

lemma binary_exponent_less:
  assumes "0 < x" and "x < pow2 k"
  shows "binary_exponent x < k"
proof -
  have "pow2 (binary_exponent x) < pow2 k"
    using binary_exponent_bounds [OF assms(1)] assms(2) by linarith
  then show ?thesis by (rule pow2_less_cancel)
qed

lemma round_half_even_error: "\<bar>of_int (round_half_even t) - t\<bar> \<le> 1 / 2"
proof -
  have "of_int \<lfloor>t\<rfloor> \<le> t" "t < of_int \<lfloor>t\<rfloor> + 1" by linarith+
  then show ?thesis by (auto simp: round_half_even_def Let_def)
qed

lemma round_half_even_upper:
  assumes "t \<le> of_int n"
  shows "round_half_even t \<le> n"
proof -
  have "of_int (round_half_even t) < (of_int (n + 1) :: real)"
  proof (cases "t = of_int n")
    case True
    then show ?thesis by (simp add: round_half_even_def)
  next
    case False
    with assms have lt: "t < of_int n" by simp
    then have fl: "\<lfloor>t\<rfloor> < n" by (simp add: floor_less_iff)
    have "round_half_even t \<le> \<lfloor>t\<rfloor> + 1" by (simp add: round_half_even_def Let_def)
    with fl have "round_half_even t \<le> n" by linarith
    then show ?thesis by simp
  qed
  then have "round_half_even t < n + 1" by (simp only: of_int_less_iff)
  then show ?thesis by simp
qed

lemma round_half_even_nonneg: "0 \<le> t \<Longrightarrow> 0 \<le> round_half_even t"
  by (auto simp: round_half_even_def Let_def)

lemma binary64_finite_error:
  assumes "\<bar>x\<bar> < pow2 k" and "- 1021 \<le> k" and "k \<le> 1023"
  shows "\<exists>y. binary64 x = Finite y \<and> \<bar>y - x\<bar> \<le> pow2 (k - 54) \<and> \<bar>y\<bar> \<le> pow2 k"
proof (cases "x = 0")
  case True
  then show ?thesis using pow2_pos [of "k - 54"] pow2_pos [of k] by (simp add: binary64_def)
next
  case False
  define a where "a = \<bar>x\<bar>"
  have apos: "0 < a" using False by (simp add: a_def)
  define e where "e = max (binary_exponent a) (- 1022)"
  have "binary_exponent a < k"
    using apos assms(1) unfolding a_def by (rule binary_exponent_less)
  then have e_lt: "e < k" using assms(2) by (simp add: e_def)
  define ulp where "ulp = pow2 (e - 52)"
  have ulp_pos: "0 < ulp" by (simp add: ulp_def pow2_pos)
  define m where "m = round_half_even (a / ulp)"
  define y0 where "y0 = of_int m * ulp"
  have "y0 - a = (of_int m - a / ulp) * ulp"
    using ulp_pos by (simp add: y0_def field_simps)
  then have "\<bar>y0 - a\<bar> = \<bar>of_int m - a / ulp\<bar> * ulp"
    using ulp_pos by (simp add: abs_mult)
  also have "\<dots> \<le> (1 / 2) * ulp"
    using round_half_even_error [of "a / ulp"] ulp_pos
    unfolding m_def by (intro mult_right_mono) simp_all
  finally have err: "\<bar>y0 - a\<bar> \<le> ulp / 2" by simp
  have "ulp / 2 = pow2 (e - 53)"
    using pow2_pred [of "e - 52"] by (simp add: ulp_def)
  also have "\<dots> \<le> pow2 (k - 54)" using e_lt by (intro pow2_mono) simp
  finally have ulp_le: "ulp / 2 \<le> pow2 (k - 54)" .
  define N :: int where "N = 2 ^ nat (k - e + 52)"
  have "pow2 k = pow2 (k - e + 52) * pow2 (e - 52)"
    using pow2_add [of "k - e + 52" "e - 52"] by simp
  also have "pow2 (k - e + 52) = of_int N" using e_lt by (simp add: pow2_def N_def)
  finally have top_eq: "pow2 k = of_int N * ulp" by (simp add: ulp_def)
  have "a / ulp \<le> of_int N"
    using assms(1) ulp_pos unfolding a_def top_eq by (simp add: field_simps)
  then have "m \<le> N" unfolding m_def by (rule round_half_even_upper)
  then have top: "y0 \<le> pow2 k"
    using ulp_pos unfolding top_eq y0_def by (intro mult_right_mono) simp_all
  have "0 \<le> m" unfolding m_def using apos ulp_pos by (intro round_half_even_nonneg) simp
  then have nonneg: "0 \<le> y0" using ulp_pos by (simp add: y0_def)
  have "pow2 k < pow2 1024" using assms(3) by (intro pow2_strict_mono) simp
  with top have fin: "\<not> pow2 1024 \<le> y0" by simp
  have b: "binary64 x = Finite (if 0 < x then y0 else - y0)"
    using False fin unfolding binary64_def Let_def y0_def m_def ulp_def e_def a_def
    by simp
  show ?thesis
  proof (cases "0 < x")
    case True
    then have "\<bar>y0 - x\<bar> \<le> pow2 (k - 54)" using err ulp_le by (simp add: a_def)
    with True b top nonneg show ?thesis by simp
  next
    case neg: False
    then have "\<bar>- y0 - x\<bar> = \<bar>y0 - a\<bar>" using False by (simp add: a_def)
    then have "\<bar>- y0 - x\<bar> \<le> pow2 (k - 54)" using err ulp_le by simp
    with neg b top nonneg show ?thesis by simp
  qed
qed

lemma round_half_even_lower:
  assumes "of_int n \<le> t"
  shows "n \<le> round_half_even t"
proof -
  have "n \<le> \<lfloor>t\<rfloor>" using assms by (simp add: le_floor_iff)
  moreover have "\<lfloor>t\<rfloor> \<le> round_half_even t" by (simp add: round_half_even_def Let_def)
  ultimately show ?thesis by linarith
qed

lemma binary64_overflow:
  assumes "pow2 1024 \<le> x"
  shows "binary64 x = PInf"
proof -
  have pos: "0 < x" using assms pow2_pos [of 1024] by linarith
  define e where "e = binary_exponent x"
  note b = binary_exponent_bounds [OF pos, folded e_def]
  have "pow2 1024 < pow2 (e + 1)" using assms b by linarith
  then have e_ge: "1024 \<le> e" using pow2_less_cancel [of 1024 "e + 1"] by simp
  define ulp where "ulp = pow2 (e - 52)"
  have ulp_pos: "0 < ulp" by (simp add: ulp_def pow2_pos)
  have "pow2 e = pow2 52 * pow2 (e - 52)" using pow2_add [of 52 "e - 52"] by simp
  also have "pow2 52 = of_int (2 ^ 52)" by (simp add: pow2_def)
  finally have pe: "pow2 e = of_int (2 ^ 52) * ulp" by (simp add: ulp_def)
  have "of_int (2 ^ 52) \<le> x / ulp"
    using b ulp_pos unfolding pe by (simp add: field_simps)
  then have "2 ^ 52 \<le> round_half_even (x / ulp)" by (rule round_half_even_lower)
  then have "(of_int (2 ^ 52) :: real) \<le> of_int (round_half_even (x / ulp))"
    by (simp only: of_int_le_iff)
  then have "of_int (2 ^ 52) * ulp \<le> of_int (round_half_even (x / ulp)) * ulp"
    using ulp_pos by (intro mult_right_mono) simp_all
  then have "pow2 e \<le> of_int (round_half_even (x / ulp)) * ulp" by (simp only: pe)
  moreover have "pow2 1024 \<le> pow2 e" using e_ge by (rule pow2_mono)
  ultimately have big: "pow2 1024 \<le> of_int (round_half_even (x / ulp)) * ulp" by linarith
  have m: "max (binary_exponent \<bar>x\<bar>) (- 1022) = e"
    using e_ge pos by (simp add: e_def)
  show ?thesis
    using pos big unfolding binary64_def Let_def m ulp_def by simp
qed

lemma rnd_step:
  assumes "\<bar>x\<bar> < 16 * pow2 k" and "10 \<le> k" and "k \<le> 1019"
  shows "\<exists>y. binary64 x = Finite y \<and> \<bar>y - x\<bar> \<le> pow2 k / 2 ^ 50"
proof -
  have p4: "pow2 (k + 4) = 16 * pow2 k"
    using pow2_add [of 4 k] by (simp add: pow2_def add.commute)
  have p50: "pow2 (k + 4 - 54) = pow2 k / 2 ^ 50"
    using pow2_add [of k "- 50"] by (simp add: pow2_def)
  have "\<bar>x\<bar> < pow2 (k + 4)" using assms(1) by (simp only: p4)
  moreover have "- 1021 \<le> k + 4" and "k + 4 \<le> 1023" using assms(2,3) by simp_all
  ultimately have "\<exists>y. binary64 x = Finite y \<and> \<bar>y - x\<bar> \<le> pow2 (k + 4 - 54)
      \<and> \<bar>y\<bar> \<le> pow2 (k + 4)"
    by (rule binary64_finite_error)
  then show ?thesis unfolding p50 by blast
qed

lemma pow2_ge_1024: "10 \<le> k \<Longrightarrow> 1024 \<le> pow2 k"
  using pow2_mono [of 10 k] by (simp add: pow2_def)

lemma celsius_to_fahrenheit_error:
  assumes "\<bar>c\<bar> \<le> pow2 k" and "10 \<le> k" and "k \<le> 1019"
  shows "\<exists>f. celsius_to_fahrenheit (Finite c) = Inr (Finite f)
           \<and> \<bar>f - (c * 9 / 5 + 32)\<bar> \<le> 3 * (pow2 k / 2 ^ 50)"
proof -
  define P where "P = pow2 k"
  define u where "u = P / 2 ^ 50"
  have P: "1024 \<le> P" unfolding P_def using assms(2) by (rule pow2_ge_1024)
  have u: "0 \<le> u" "u \<le> P" using P by (simp_all add: u_def field_simps)
  note step = rnd_step [OF _ assms(2,3), folded P_def, folded u_def]
  have c: "\<bar>c\<bar> \<le> P" using assms(1) by (simp add: P_def)
  have "\<bar>c * 9\<bar> < 16 * P" using c P by (simp add: abs_mult)
  from step [OF this] obtain a where a: "binary64 (c * 9) = Finite a" "\<bar>a - c * 9\<bar> \<le> u"
    by blast
  have "\<bar>a / 5\<bar> < 16 * P" using a(2) c u P by (simp add: abs_if split: if_splits)
  from step [OF this] obtain b where b: "binary64 (a / 5) = Finite b" "\<bar>b - a / 5\<bar> \<le> u"
    by blast
  have "\<bar>b + 32\<bar> < 16 * P" using a(2) b(2) c u P by (simp add: abs_if split: if_splits)
  from step [OF this] obtain f where f: "binary64 (b + 32) = Finite f" "\<bar>f - (b + 32)\<bar> \<le> u"
    by blast
  have "celsius_to_fahrenheit (Finite c) = Inr (Finite f)"
    by (simp add: celsius_to_fahrenheit_def a(1) b(1) f(1))
  moreover have "\<bar>f - (c * 9 / 5 + 32)\<bar> \<le> 3 * u"
    using a(2) b(2) f(2) u by (simp add: abs_if split: if_splits)
  ultimately show ?thesis unfolding u_def P_def by blast
qed

lemma fahrenheit_to_celsius_error:
  assumes "\<bar>f\<bar> \<le> 2 * pow2 k" and "10 \<le> k" and "k \<le> 1019"
  shows "\<exists>c. fahrenheit_to_celsius (Finite f) = Inr (Finite c)
           \<and> \<bar>c - (f - 32) * 5 / 9\<bar> \<le> 2 * (pow2 k / 2 ^ 50)"
proof -
  define P where "P = pow2 k"
  define u where "u = P / 2 ^ 50"
  have P: "1024 \<le> P" unfolding P_def using assms(2) by (rule pow2_ge_1024)
  have u: "0 \<le> u" "u \<le> P" using P by (simp_all add: u_def field_simps)
  note step = rnd_step [OF _ assms(2,3), folded P_def, folded u_def]
  have f: "\<bar>f\<bar> \<le> 2 * P" using assms(1) by (simp add: P_def)
  have "\<bar>f - 32\<bar> < 16 * P" using f P by (simp add: abs_if split: if_splits)
  from step [OF this] obtain d where d: "binary64 (f - 32) = Finite d" "\<bar>d - (f - 32)\<bar> \<le> u"
    by blast
  have "\<bar>d * 5\<bar> < 16 * P" using d(2) f u P by (simp add: abs_if split: if_splits)
  from step [OF this] obtain e where e: "binary64 (d * 5) = Finite e" "\<bar>e - d * 5\<bar> \<le> u"
    by blast
  have "\<bar>e / 9\<bar> < 16 * P" using d(2) e(2) f u P by (simp add: abs_if split: if_splits)
  from step [OF this] obtain c where c: "binary64 (e / 9) = Finite c" "\<bar>c - e / 9\<bar> \<le> u"
    by blast
  have "fahrenheit_to_celsius (Finite f) = Inr (Finite c)"
    by (simp add: fahrenheit_to_celsius_def float_sub_def d(1) e(1) c(1))
  moreover have "\<bar>c - (f - 32) * 5 / 9\<bar> \<le> 2 * u"
    using d(2) e(2) c(2) u(1) by argo
  ultimately show ?thesis unfolding u_def P_def by blast
qed

lemma round_half_even_of_int: "round_half_even (of_int n) = n"
  by (simp add: round_half_even_def)

lemma binary64_pow2:
  assumes "- 1022 \<le> e" and "e \<le> 1023"
  shows "binary64 (pow2 e) = Finite (pow2 e)"
proof -
  have pos: "0 < pow2 e" by (rule pow2_pos)
  have be: "binary_exponent (pow2 e) = e"
    by (rule binary_exponent_unique) (simp_all add: pow2_strict_mono)
  have m: "max (binary_exponent \<bar>pow2 e\<bar>) (- 1022) = e"
    using pos assms(1) by (simp add: be)
  have "pow2 e = pow2 52 * pow2 (e - 52)" using pow2_add [of 52 "e - 52"] by simp
  also have "pow2 52 = of_int (2 ^ 52)" by (simp add: pow2_def)
  finally have pe: "pow2 e = of_int (2 ^ 52) * pow2 (e - 52)" .
  have q: "pow2 e / pow2 (e - 52) = of_int (2 ^ 52)"
    using pow2_pos [of "e - 52"] by (subst pe) simp
  have "pow2 e < pow2 1024" using assms(2) by (intro pow2_strict_mono) simp
  then have fin: "\<not> pow2 1024 \<le> pow2 e" by simp
  have y: "of_int (round_half_even (\<bar>pow2 e\<bar> / pow2 (e - 52))) * pow2 (e - 52) = pow2 e"
    using pos by (simp only: abs_of_pos q round_half_even_of_int pe [symmetric])
  show ?thesis
    using pos fin unfolding binary64_def Let_def m y by simp
qed

lemma pow2_numeral: "pow2 (numeral n) = 2 ^ numeral n"
  by (simp add: pow2_def)

lemma pow2_10: "pow2 10 = 1024"
  by (simp add: pow2_def)

lemmas binary64_eval =
  binary64_def binary_exponent_def expo_up.simps expo_down.simps round_half_even_def
  pow2_def Let_def

section \<open>Properties of reading\<close>

lemma truediv_nonzero:
  "y \<noteq> 0 \<Longrightarrow> \<exists>r. float_truediv a (Finite y) = Inr r"
  by (cases a) simp_all

lemma fahrenheit_to_celsius_total: "\<exists>y. fahrenheit_to_celsius x = Inr y"
  unfolding fahrenheit_to_celsius_def by (rule truediv_nonzero) simp

lemma celsius_to_fahrenheit_total:
  "\<exists>q. float_truediv (float_mul x (Finite 9)) (Finite 5) = Inr q
       \<and> celsius_to_fahrenheit x = Inr (float_add q (Finite 32))"
proof -
  obtain q where "float_truediv (float_mul x (Finite 9)) (Finite 5) = Inr q"
    using truediv_nonzero [of 5] by auto
  then show ?thesis by (simp add: celsius_to_fahrenheit_def)
qed

lemma native_value_absent:
  "get_value_from_path (data coordinator) (data_path self) = None \<Longrightarrow>
     native_value float_of_str coordinator self = ([], Inr None)"
  by (simp add: native_value_def)

lemma native_value_absorbs:
  assumes "get_value_from_path (data coordinator) (data_path self) = Some v"
    and "py_float float_of_str v = Inl e" and "isinstance_ValueError_or_TypeError e"
  shows "native_value float_of_str coordinator self = ([Log ERROR], Inr None)"
  using assms by (simp add: native_value_def convert_read_def)

lemma py_float_raises:
  assumes "py_float float_of_str v = Inl e"
  shows "isinstance_ValueError_or_TypeError e
       \<or> (\<exists>i. v = JInt i \<and> e = Raised OverflowError ''int too large to convert to float'')"
  using assms
  by (cases v) (auto simp: float_of_int_def split: option.splits pyfloat.splits)

lemma native_value_raise_cases:
  assumes "snd (native_value float_of_str coordinator self) = Inl e"
  shows "\<exists>i. get_value_from_path (data coordinator) (data_path self) = Some (JInt i)
           \<and> e = Raised OverflowError ''int too large to convert to float''"
proof (cases "get_value_from_path (data coordinator) (data_path self)")
  case None
  then show ?thesis using assms by (simp add: native_value_def)
next
  case (Some v)
  show ?thesis
  proof (cases "py_float float_of_str v")
    case (Inl e')
    with py_float_raises [OF Inl] Some assms show ?thesis
      by (auto simp: native_value_def convert_read_def split: if_splits)
  next
    case (Inr x)
    obtain y where "fahrenheit_to_celsius x = Inr y"
      using fahrenheit_to_celsius_total by blast
    with Inr Some assms show ?thesis
      by (simp add: native_value_def convert_read_def split: if_splits)
  qed
qed

lemmas example_defs =
  make_entities_def new_entity_def NUMBER_DESCRIPTIONS_HEATPUMP_def NUMBER_DESCRIPTIONS_CHLOR_def
  list_index_def convert_write_def celsius_to_fahrenheit_def calls_def

lemma read_example_986:
  "native_value float_of_str
     \<lparr>data = Some [(''devices'', JDict [(''7'', JDict [(''config'',
               JDict [(''setpoint'', JFloat (binary64 (986 / 10)))])])])],
      password = None, mac_address = ''mac'',
      api_client_request_patch = (\<lambda>deviceId keyId n pw. Inr JNull),
      async_request_refresh = Inr ()\<rparr>
     (make_entities ''mac'' ''7'' (NUMBER_DESCRIPTIONS_HEATPUMP HEATPUMP_ID) ! 0)
   = ([], Inr (Some (Finite 37)))"
  by (simp add: native_value_def convert_read_def get_value_from_path_def example_defs
      fahrenheit_to_celsius_def float_sub_def binary64_eval)

text \<open>
  Claim C2.  When the resolver yields a value and \<open>float\<close> coerces it to \<open>x\<close>, reading a
  Celsius entity returns \<open>(x - 32) * 5 / 9\<close> computed in binary64 arithmetic, and reading
  an entity of any other unit returns \<open>x\<close> unchanged.  For a finite \<open>x\<close> of magnitude up to
  2048 the value returned is within \<open>2 / 2^40\<close> of the exact quotient.  A setpoint of 98.6
  reads as exactly 37.0.
\<close>

theorem native_value_converts_fahrenheit:
  assumes "get_value_from_path (data coordinator) (data_path self) = Some v"
    and "py_float float_of_str v = Inr x"
  shows
    "(native_unit_of_measurement (entity_description self) = Some CELSIUS \<longrightarrow>
        (\<exists>y. float_truediv (float_mul (float_sub x (Finite 32)) (Finite 5)) (Finite 9) = Inr y
           \<and> native_value float_of_str coordinator self = ([], Inr (Some y))))
     \<and> (native_unit_of_measurement (entity_description self) \<noteq> Some CELSIUS \<longrightarrow>
        native_value float_of_str coordinator self = ([], Inr (Some x)))
     \<and> (\<forall>f. \<bar>f\<bar> \<le> 2048 \<longrightarrow>
          (\<exists>c. float_truediv (float_mul (float_sub (Finite f) (Finite 32)) (Finite 5)) (Finite 9)
                  = Inr (Finite c)
             \<and> \<bar>c - (f - 32) * 5 / 9\<bar> \<le> 2 / 2 ^ 40))
     \<and> native_value float_of_str
          \<lparr>data = Some [(''devices'', JDict [(''7'', JDict [(''config'',
                    JDict [(''setpoint'', JFloat (binary64 (986 / 10)))])])])],
           password = None, mac_address = ''mac'',
           api_client_request_patch = (\<lambda>deviceId keyId n pw. Inr JNull),
           async_request_refresh = Inr ()\<rparr>
          (make_entities ''mac'' ''7'' (NUMBER_DESCRIPTIONS_HEATPUMP HEATPUMP_ID) ! 0)
        = ([], Inr (Some (Finite 37)))"
proof -
  obtain y where y: "fahrenheit_to_celsius x = Inr y"
    using fahrenheit_to_celsius_total by blast
  have c: "native_unit_of_measurement (entity_description self) = Some CELSIUS \<Longrightarrow>
      native_value float_of_str coordinator self = ([], Inr (Some y))"
    using assms y by (simp add: native_value_def convert_read_def)
  have p: "native_unit_of_measurement (entity_description self) \<noteq> Some CELSIUS \<Longrightarrow>
      native_value float_of_str coordinator self = ([], Inr (Some x))"
    using assms by (simp add: native_value_def convert_read_def)
  have approx: "\<exists>c. fahrenheit_to_celsius (Finite f) = Inr (Finite c)
             \<and> \<bar>c - (f - 32) * 5 / 9\<bar> \<le> 2 / 2 ^ 40" if "\<bar>f\<bar> \<le> 2048" for f
  proof -
    have "\<bar>f\<bar> \<le> 2 * pow2 10" using that by (simp only: pow2_10)
    from fahrenheit_to_celsius_error [OF this] show ?thesis by (simp add: pow2_10)
  qed
  from c p approx y read_example_986 [of float_of_str HEATPUMP_ID]
  show ?thesis unfolding fahrenheit_to_celsius_def by blast
qed

theorem native_value_converts_fahrenheit_witness:
  "\<exists>y. native_value (\<lambda>s. None)
     \<lparr>data = Some [(''devices'', JDict [(''7'', JDict [(''config'',
               JDict [(''setpoint'', JInt 50)])])])],
      password = None, mac_address = ''mac'',
      api_client_request_patch = (\<lambda>deviceId keyId n pw. Inr JNull),
      async_request_refresh = Inr ()\<rparr>
     (make_entities ''mac'' ''7'' (NUMBER_DESCRIPTIONS_HEATPUMP ''1'') ! 0)
   = ([], Inr (Some y))"
proof -
  let ?c = "\<lparr>data = Some [(''devices'', JDict [(''7'', JDict [(''config'',
               JDict [(''setpoint'', JInt 50)])])])],
      password = None, mac_address = ''mac'',
      api_client_request_patch = (\<lambda>deviceId keyId n pw. Inr JNull),
      async_request_refresh = Inr ()\<rparr>"
  let ?e = "make_entities ''mac'' ''7'' (NUMBER_DESCRIPTIONS_HEATPUMP ''1'') ! 0"
  have h1: "get_value_from_path (data ?c) (data_path ?e) = Some (JInt 50)"
    by (simp add: get_value_from_path_def example_defs)
  have h2: "py_float (\<lambda>s. None) (JInt 50) = Inr (Finite 50)"
    by (simp add: float_of_int_def binary64_eval)
  have u: "native_unit_of_measurement (entity_description ?e) = Some CELSIUS"
    by (simp add: example_defs)
  from native_value_converts_fahrenheit [OF h1 h2, THEN conjunct1, THEN mp, OF u]
  show ?thesis by blast
qed

text \<open>
  Claim C3.  The claim is that reading never raises.  The \<open>except\<close> clause of
  \<open>native_value\<close> names \<open>ValueError\<close> and \<open>TypeError\<close>; \<open>float\<close> of an integer beyond the
  binary64 range raises \<open>OverflowError\<close>, which is neither.  With the integer \<open>10^400\<close>
  under the path, \<open>native_value\<close> raises \<open>OverflowError\<close> to its caller.
\<close>

theorem native_value_raises_on_oversized_int:
  "native_value float_of_str
      \<lparr>data = Some [(''devices'', JDict [(''5'', JDict [(''config'',
                JDict [(''chlorOutput'', JInt (10 ^ 400))])])])],
       password = None, mac_address = ''mac'',
       api_client_request_patch = (\<lambda>deviceId keyId n pw. Inr JNull),
       async_request_refresh = Inr ()\<rparr>
      (make_entities ''mac'' ''5'' (NUMBER_DESCRIPTIONS_CHLOR CHLORINATOR_ID) ! 0)
   = ([], Inl (Raised OverflowError ''int too large to convert to float''))"
proof -
  have "pow2 1024 \<le> of_int (10 ^ 400)" by (simp add: pow2_numeral)
  then have "binary64 (of_int (10 ^ 400)) = PInf" by (rule binary64_overflow)
  then have "float_of_int (10 ^ 400) = Inl (Raised OverflowError ''int too large to convert to float'')"
    by (simp add: float_of_int_def)
  then show ?thesis
    by (simp add: native_value_def convert_read_def get_value_from_path_def example_defs)
qed

section \<open>Properties of writing\<close>

lemmas write_defs =
  async_set_native_value_def write_try_def write_except_def Let_def

lemma write_patch_event:
  assumes "RequestPatch d k n p \<in> set (fst (async_set_native_value coordinator self v))"
  shows "(\<exists>x. convert_write (native_unit_of_measurement (entity_description self)) v = Inr x
            \<and> py_int x = Inr n)
       \<and> list_index (data_path self) 1 = Inr d \<and> list_index (data_path self) 3 = Inr k
       \<and> password coordinator = Some p \<and> p \<noteq> []"
  using assms
  by (auto simp: write_defs split: sum.splits option.splits if_splits)

lemma write_reaches_try:
  assumes "convert_write (native_unit_of_measurement (entity_description self)) v = Inr x"
    and "py_int x = Inr n"
    and "list_index (data_path self) 1 = Inr d" and "list_index (data_path self) 3 = Inr k"
    and "password coordinator = Some p" and "p \<noteq> []"
  shows "async_set_native_value coordinator self v =
           ([Log INFO, Log INFO, Log DEBUG] @ fst (write_try coordinator d k n p),
            snd (write_try coordinator d k n p))"
  using assms by (simp add: async_set_native_value_def Let_def)

lemma py_int_truncates:
  assumes "py_int (Finite x) = Inr n"
  shows "\<bar>of_int n\<bar> \<le> \<bar>x\<bar> \<and> \<bar>x\<bar> < \<bar>of_int n\<bar> + 1 \<and> 0 \<le> of_int n * x"
proof (cases "0 \<le> x")
  case True
  then have n: "n = \<lfloor>x\<rfloor>" using assms by simp
  have "0 \<le> \<lfloor>x\<rfloor>" using True by simp
  moreover have "of_int \<lfloor>x\<rfloor> \<le> x" "x < of_int \<lfloor>x\<rfloor> + 1" by linarith+
  ultimately show ?thesis using True unfolding n by (simp add: abs_if)
next
  case False
  then have n: "n = \<lceil>x\<rceil>" using assms by simp
  have le0: "(of_int \<lceil>x\<rceil> :: real) \<le> 0" using False by (simp add: ceiling_le_iff)
  have b: "x \<le> of_int \<lceil>x\<rceil>" "of_int \<lceil>x\<rceil> < x + 1" by linarith+
  have "0 \<le> of_int \<lceil>x\<rceil> * x" using le0 False by (intro mult_nonpos_nonpos) simp_all
  moreover have "\<bar>of_int \<lceil>x\<rceil>\<bar> \<le> \<bar>x\<bar>" using le0 b False by linarith
  moreover have "\<bar>x\<bar> < \<bar>of_int \<lceil>x\<rceil>\<bar> + 1" using le0 b False by linarith
  ultimately show ?thesis unfolding n by simp
qed

lemma write_example_239:
  "calls (fst (async_set_native_value
      \<lparr>data = None, password = Some ''secret'', mac_address = ''mac'',
       api_client_request_patch = (\<lambda>deviceId keyId n pw. Inr JNull),
       async_request_refresh = Inr ()\<rparr>
      (make_entities ''mac'' ''7'' (NUMBER_DESCRIPTIONS_HEATPUMP HEATPUMP_ID) ! 0)
      (binary64 (239 / 10))))
   = [RequestPatch ''7'' ''setpoint'' 75 ''secret'', RequestRefresh]"
  by (simp add: write_defs example_defs binary64_eval)

lemma write_example_20:
  "calls (fst (async_set_native_value
      \<lparr>data = None, password = Some ''secret'', mac_address = ''mac'',
       api_client_request_patch = (\<lambda>deviceId keyId n pw. Inr JNull),
       async_request_refresh = Inr ()\<rparr>
      (make_entities ''mac'' ''7'' (NUMBER_DESCRIPTIONS_HEATPUMP HEATPUMP_ID) ! 0)
      (binary64 20)))
   = [RequestPatch ''7'' ''setpoint'' 68 ''secret'', RequestRefresh]"
  by (simp add: write_defs example_defs binary64_eval)

lemma write_example_242:
  "calls (fst (async_set_native_value
      \<lparr>data = None, password = Some ''secret'', mac_address = ''mac'',
       api_client_request_patch = (\<lambda>deviceId keyId n pw. Inr JNull),
       async_request_refresh = Inr ()\<rparr>
      (make_entities ''mac'' ''7'' (NUMBER_DESCRIPTIONS_HEATPUMP HEATPUMP_ID) ! 0)
      (binary64 (242 / 10))))
   = [RequestPatch ''7'' ''setpoint'' 75 ''secret'', RequestRefresh]"
  by (simp add: write_defs example_defs binary64_eval)

lemma write_example_chlor:
  "calls (fst (async_set_native_value
      \<lparr>data = None, password = Some ''secret'', mac_address = ''mac'',
       api_client_request_patch = (\<lambda>deviceId keyId n pw. Inr JNull),
       async_request_refresh = Inr ()\<rparr>
      (make_entities ''mac'' ''5'' (NUMBER_DESCRIPTIONS_CHLOR CHLORINATOR_ID) ! 0)
      (binary64 (239 / 10))))
   = [RequestPatch ''5'' ''chlorOutput'' 23 ''secret'', RequestRefresh]"
  by (simp add: write_defs example_defs binary64_eval)



lemma write_failed_patch:
  assumes "RequestPatch d k n p \<in> set (fst (async_set_native_value coordinator self v))"
    and "api_client_request_patch coordinator d k n p = Inl e"
  shows "async_set_native_value coordinator self v =
           ([Log INFO, Log INFO, Log DEBUG, Log DEBUG, RequestPatch d k n p]
              @ fst (write_except e), snd (write_except e))"
proof -
  from write_patch_event [OF assms(1)] obtain x where
    "convert_write (native_unit_of_measurement (entity_description self)) v = Inr x"
    "py_int x = Inr n" "list_index (data_path self) 1 = Inr d"
    "list_index (data_path self) 3 = Inr k" "password coordinator = Some p" "p \<noteq> []"
    by blast
  then show ?thesis
    using assms(2) by (simp add: write_reaches_try write_try_def)
qed


text \<open>
  Claim C1.  Whenever a write sends a patch request, the integer sent is \<open>int\<close> of the
  converted input: for a Celsius entity the input times 9, divided by 5, plus 32, in
  binary64 arithmetic (for an input of magnitude up to 1024, within \<open>3 / 2^40\<close> of the
  exact \<open>v * 9 / 5 + 32\<close>), and for any other unit the input itself.  \<open>int\<close> truncates
  toward zero.  The request is sent whenever the conversion and truncation succeed, the
  path has a device id and a key id, and the coordinator holds a password.  On the
  heat-pump setpoint, 23.9 is sent as 75 and 20.0 as 68; on the chlorinator output, 23.9
  is sent as 23.
\<close>

theorem write_sends_truncated_conversion:
  "(\<forall>d k n p.
       RequestPatch d k n p \<in> set (fst (async_set_native_value coordinator self v)) \<longrightarrow>
         (\<exists>x. convert_write (native_unit_of_measurement (entity_description self)) v = Inr x
            \<and> py_int x = Inr n))
   \<and> (\<forall>x n d k p.
         convert_write (native_unit_of_measurement (entity_description self)) v = Inr x
         \<and> py_int x = Inr n
         \<and> list_index (data_path self) 1 = Inr d \<and> list_index (data_path self) 3 = Inr k
         \<and> password coordinator = Some p \<and> p \<noteq> []
       \<longrightarrow> RequestPatch d k n p \<in> set (fst (async_set_native_value coordinator self v)))
   \<and> (\<exists>q. float_truediv (float_mul v (Finite 9)) (Finite 5) = Inr q
          \<and> convert_write (Some CELSIUS) v = Inr (float_add q (Finite 32)))
   \<and> (\<forall>unit. unit \<noteq> Some CELSIUS \<longrightarrow> convert_write unit v = Inr v)
   \<and> (\<forall>c. \<bar>c\<bar> \<le> 1024 \<longrightarrow>
         (\<exists>f. convert_write (Some CELSIUS) (Finite c) = Inr (Finite f)
            \<and> \<bar>f - (c * 9 / 5 + 32)\<bar> \<le> 3 / 2 ^ 40))
   \<and> (\<forall>x n. py_int (Finite x) = Inr n \<longrightarrow>
         \<bar>of_int n\<bar> \<le> \<bar>x\<bar> \<and> \<bar>x\<bar> < \<bar>of_int n\<bar> + 1 \<and> 0 \<le> of_int n * x)
   \<and> calls (fst (async_set_native_value
          \<lparr>data = None, password = Some ''secret'', mac_address = ''mac'',
           api_client_request_patch = (\<lambda>deviceId keyId n pw. Inr JNull),
           async_request_refresh = Inr ()\<rparr>
          (make_entities ''mac'' ''7'' (NUMBER_DESCRIPTIONS_HEATPUMP HEATPUMP_ID) ! 0)
          (binary64 (239 / 10))))
       = [RequestPatch ''7'' ''setpoint'' 75 ''secret'', RequestRefresh]
   \<and> calls (fst (async_set_native_value
          \<lparr>data = None, password = Some ''secret'', mac_address = ''mac'',
           api_client_request_patch = (\<lambda>deviceId keyId n pw. Inr JNull),
           async_request_refresh = Inr ()\<rparr>
          (make_entities ''mac'' ''7'' (NUMBER_DESCRIPTIONS_HEATPUMP HEATPUMP_ID) ! 0)
          (binary64 20)))
       = [RequestPatch ''7'' ''setpoint'' 68 ''secret'', RequestRefresh]
   \<and> calls (fst (async_set_native_value
          \<lparr>data = None, password = Some ''secret'', mac_address = ''mac'',
           api_client_request_patch = (\<lambda>deviceId keyId n pw. Inr JNull),
           async_request_refresh = Inr ()\<rparr>
          (make_entities ''mac'' ''5'' (NUMBER_DESCRIPTIONS_CHLOR CHLORINATOR_ID) ! 0)
          (binary64 (239 / 10))))
       = [RequestPatch ''5'' ''chlorOutput'' 23 ''secret'', RequestRefresh]"
proof -
  let ?r = "async_set_native_value coordinator self v"
  let ?u = "native_unit_of_measurement (entity_description self)"
  have sent: "\<exists>x. convert_write ?u v = Inr x \<and> py_int x = Inr n"
    if "RequestPatch d k n p \<in> set (fst ?r)" for d k n p
    using write_patch_event [OF that] by blast
  have reach: "RequestPatch d k n p \<in> set (fst ?r)"
    if "convert_write ?u v = Inr x \<and> py_int x = Inr n
         \<and> list_index (data_path self) 1 = Inr d \<and> list_index (data_path self) 3 = Inr k
         \<and> password coordinator = Some p \<and> p \<noteq> []" for x n d k p
  proof -
    from that have h: "convert_write ?u v = Inr x" "py_int x = Inr n"
      "list_index (data_path self) 1 = Inr d" "list_index (data_path self) 3 = Inr k"
      "password coordinator = Some p" "p \<noteq> []"
      by blast+
    show ?thesis
      unfolding write_reaches_try [OF h] by (simp add: write_try_def split: sum.splits)
  qed
  have cels: "\<exists>q. float_truediv (float_mul v (Finite 9)) (Finite 5) = Inr q
          \<and> convert_write (Some CELSIUS) v = Inr (float_add q (Finite 32))"
    using celsius_to_fahrenheit_total [of v] by (simp add: convert_write_def)
  have other: "convert_write unit v = Inr v" if "unit \<noteq> Some CELSIUS" for unit
    using that by (simp add: convert_write_def)
  have approx: "\<exists>f. convert_write (Some CELSIUS) (Finite c) = Inr (Finite f)
            \<and> \<bar>f - (c * 9 / 5 + 32)\<bar> \<le> 3 / 2 ^ 40" if "\<bar>c\<bar> \<le> 1024" for c
  proof -
    have "\<bar>c\<bar> \<le> pow2 10" using that by (simp only: pow2_10)
    from celsius_to_fahrenheit_error [OF this] show ?thesis
      by (simp add: convert_write_def pow2_10)
  qed
  have trunc: "\<bar>of_int n\<bar> \<le> \<bar>x\<bar> \<and> \<bar>x\<bar> < \<bar>of_int n\<bar> + 1 \<and> 0 \<le> of_int n * x"
    if "py_int (Finite x) = Inr n" for x n
    using that by (rule py_int_truncates)
  from sent reach cels other approx trunc write_example_239 write_example_20
    write_example_chlor
  show ?thesis by blast
qed

theorem write_sends_truncated_conversion_witness:
  "\<exists>x. convert_write (Some CELSIUS) (binary64 (242 / 10)) = Inr x \<and> py_int x = Inr 75"
proof -
  let ?c = "\<lparr>data = None, password = Some ''secret'', mac_address = ''mac'',
       api_client_request_patch = (\<lambda>deviceId keyId n pw. Inr JNull),
       async_request_refresh = Inr ()\<rparr>"
  let ?e = "make_entities ''mac'' ''7'' (NUMBER_DESCRIPTIONS_HEATPUMP ''1'') ! 0"
  have "RequestPatch ''7'' ''setpoint'' 75 ''secret''
      \<in> set (calls (fst (async_set_native_value ?c ?e (binary64 (242 / 10)))))"
    by (simp only: write_example_242) simp
  then have m: "RequestPatch ''7'' ''setpoint'' 75 ''secret''
      \<in> set (fst (async_set_native_value ?c ?e (binary64 (242 / 10))))"
    by (simp add: calls_def)
  have u: "native_unit_of_measurement (entity_description ?e) = Some CELSIUS"
    by (simp add: example_defs)
  from write_sends_truncated_conversion [of ?c ?e "binary64 (242 / 10)", THEN conjunct1,
      rule_format, OF m]
  show ?thesis by (simp only: u)
qed

text \<open>
  Claim C4, as stated, fails: the conversion, the truncation and the extraction of the
  device id and key id come before the password check, so a write of NaN with no
  password raises the \<open>ValueError\<close> of \<open>int\<close>, not the error for the missing password.
\<close>

theorem write_without_credential_nan_counterexample:
  "snd (async_set_native_value
      \<lparr>data = None, password = None, mac_address = ''mac'',
       api_client_request_patch = (\<lambda>deviceId keyId n pw. Inr JNull),
       async_request_refresh = Inr ()\<rparr>
      (make_entities ''mac'' ''5'' (NUMBER_DESCRIPTIONS_CHLOR ''0'') ! 0)
      NaN)
     = Inl (Raised ValueError ''cannot convert float NaN to integer'')
   \<and> Raised ValueError ''cannot convert float NaN to integer'' \<noteq> CredentialUnavailable"
  by (simp add: write_defs example_defs CredentialUnavailable_def)

text \<open>
  Claim C4, amended.  While the coordinator holds no password (none, or an empty one), no
  write invokes the patch request or the refresh request; and every such write whose
  converted value truncates to an integer and whose path has at least four segments
  fails with \<open>CredentialUnavailable\<close>.
\<close>

theorem write_without_credential:
  assumes "password coordinator = None \<or> password coordinator = Some []"
  shows "calls (fst (async_set_native_value coordinator self v)) = []
       \<and> ((\<exists>x n. convert_write (native_unit_of_measurement (entity_description self)) v = Inr x
                \<and> py_int x = Inr n)
            \<and> 4 \<le> length (data_path self)
          \<longrightarrow> snd (async_set_native_value coordinator self v) = Inl CredentialUnavailable)"
  using assms
  by (auto simp: async_set_native_value_def calls_def list_index_def
      split: sum.splits option.splits)

theorem write_without_credential_witness:
  "calls (fst (async_set_native_value
      \<lparr>data = None, password = None, mac_address = ''mac'',
       api_client_request_patch = (\<lambda>deviceId keyId n pw. Inr JNull),
       async_request_refresh = Inr ()\<rparr>
      (make_entities ''mac'' ''5'' (NUMBER_DESCRIPTIONS_CHLOR ''0'') ! 0)
      (Finite 20))) = []
   \<and> snd (async_set_native_value
      \<lparr>data = None, password = None, mac_address = ''mac'',
       api_client_request_patch = (\<lambda>deviceId keyId n pw. Inr JNull),
       async_request_refresh = Inr ()\<rparr>
      (make_entities ''mac'' ''5'' (NUMBER_DESCRIPTIONS_CHLOR ''0'') ! 0)
      (Finite 20)) = Inl CredentialUnavailable"
proof -
  let ?c = "\<lparr>data = None, password = None, mac_address = ''mac'',
       api_client_request_patch = (\<lambda>deviceId keyId n pw. Inr JNull),
       async_request_refresh = Inr ()\<rparr>"
  let ?e = "make_entities ''mac'' ''5'' (NUMBER_DESCRIPTIONS_CHLOR ''0'') ! 0"
  have h: "password ?c = None \<or> password ?c = Some []" by simp
  have g: "(\<exists>x n. convert_write (native_unit_of_measurement (entity_description ?e)) (Finite 20)
                = Inr x \<and> py_int x = Inr n)
           \<and> 4 \<le> length (data_path ?e)"
    by (simp add: example_defs)
  note t = write_without_credential [OF h, of ?e "Finite 20"]
  from t [THEN conjunct1] t [THEN conjunct2, THEN mp, OF g] show ?thesis by (rule conjI)
qed

text \<open>
  Claim C5.  When the patch request that a write sends raises \<open>e\<close>, the write raises:
  \<open>e\<close> itself when \<open>e\<close> is a \<open>HomeAssistantError\<close>, and otherwise, after an error log
  record, a new \<open>HomeAssistantError\<close> whose text is \<open>"Failed to set value: "\<close> followed by
  \<open>str(e)\<close>.  No refresh is requested and the write does not return normally.
\<close>

theorem write_failure_surfaced:
  assumes "RequestPatch d k n p \<in> set (fst (async_set_native_value coordinator self v))"
    and "api_client_request_patch coordinator d k n p = Inl e"
  shows "snd (async_set_native_value coordinator self v)
           = Inl (if isinstance_HomeAssistantError e then e else WriteFailed e)
       \<and> (\<not> isinstance_HomeAssistantError e \<longrightarrow>
            WriteFailed e = Raised HomeAssistantError (''Failed to set value: '' @ str_of e)
            \<and> Log ERROR \<in> set (fst (async_set_native_value coordinator self v)))
       \<and> RequestRefresh \<notin> set (fst (async_set_native_value coordinator self v))"
  unfolding write_failed_patch [OF assms]
  by (simp add: write_except_def WriteFailed_def)

theorem write_failure_surfaced_witness:
  "snd (async_set_native_value
      \<lparr>data = None, password = Some ''secret'', mac_address = ''mac'',
       api_client_request_patch =
         (\<lambda>deviceId keyId n pw. Inl (Raised (OtherException ''ClientError'') ''timeout'')),
       async_request_refresh = Inr ()\<rparr>
      (make_entities ''mac'' ''5'' (NUMBER_DESCRIPTIONS_CHLOR ''0'') ! 0)
      (Finite 20))
   = Inl (Raised HomeAssistantError ''Failed to set value: timeout'')"
proof -
  let ?c = "\<lparr>data = None, password = Some ''secret'', mac_address = ''mac'',
       api_client_request_patch =
         (\<lambda>deviceId keyId n pw. Inl (Raised (OtherException ''ClientError'') ''timeout'')),
       async_request_refresh = Inr ()\<rparr>"
  let ?e = "make_entities ''mac'' ''5'' (NUMBER_DESCRIPTIONS_CHLOR ''0'') ! 0"
  have m: "RequestPatch ''5'' ''chlorOutput'' 20 ''secret''
      \<in> set (fst (async_set_native_value ?c ?e (Finite 20)))"
    by (simp add: write_defs example_defs)
  have f: "api_client_request_patch ?c ''5'' ''chlorOutput'' 20 ''secret''
      = Inl (Raised (OtherException ''ClientError'') ''timeout'')"
    by simp
  from write_failure_surfaced [OF m f, THEN conjunct1]
  show ?thesis by (simp add: WriteFailed_def)
qed




section \<open>The two conversions composed\<close>

text \<open>
  Claim C8, as stated, fails for values near the top of the binary64 range: \<open>2^1023\<close> is a
  binary64 number, its product with 9 overflows to infinity, and converting back leaves
  infinity.
\<close>

theorem conversion_round_trip_overflow_counterexample:
  "binary64 (2 ^ 1023) = Finite (2 ^ 1023)
   \<and> celsius_to_fahrenheit (Finite (2 ^ 1023)) = Inr PInf
   \<and> fahrenheit_to_celsius PInf = Inr PInf"
proof -
  have "binary64 (pow2 1023) = Finite (pow2 1023)" by (rule binary64_pow2) simp_all
  then have a: "binary64 (2 ^ 1023) = Finite (2 ^ 1023)" by (simp only: pow2_numeral)
  have "pow2 1024 \<le> 2 ^ 1023 * 9" by (simp add: pow2_numeral)
  then have "binary64 (2 ^ 1023 * 9) = PInf" by (rule binary64_overflow)
  then have b: "celsius_to_fahrenheit (Finite (2 ^ 1023)) = Inr PInf"
    by (simp add: celsius_to_fahrenheit_def signed_infinity_def)
  have c: "fahrenheit_to_celsius PInf = Inr PInf"
    by (simp add: fahrenheit_to_celsius_def float_sub_def signed_infinity_def)
  from a b c show ?thesis by simp
qed

text \<open>
  Claim C8, amended.  For every \<open>k\<close> from 10 to 1019 and every finite \<open>c\<close> of magnitude at
  most \<open>2^k\<close>, converting \<open>c\<close> from Celsius to Fahrenheit and back gives a finite value
  within \<open>2^k / 2^47\<close> of \<open>c\<close>, and so does converting from Fahrenheit to Celsius and
  back; for magnitudes up to 1024 the tolerance is \<open>2^-37\<close>.
\<close>

theorem conversion_round_trip:
  assumes "\<bar>c\<bar> \<le> pow2 k" and "10 \<le> k" and "k \<le> 1019"
  shows "(\<exists>f r. celsius_to_fahrenheit (Finite c) = Inr (Finite f)
             \<and> fahrenheit_to_celsius (Finite f) = Inr (Finite r)
             \<and> \<bar>r - c\<bar> \<le> pow2 k / 2 ^ 47)
       \<and> (\<exists>c' r. fahrenheit_to_celsius (Finite c) = Inr (Finite c')
             \<and> celsius_to_fahrenheit (Finite c') = Inr (Finite r)
             \<and> \<bar>r - c\<bar> \<le> pow2 k / 2 ^ 47)"
proof -
  define P where "P = pow2 k"
  define u where "u = P / 2 ^ 50"
  have P: "1024 \<le> P" unfolding P_def using assms(2) by (rule pow2_ge_1024)
  have u: "0 \<le> u" "1024 * u \<le> P" using P by (simp_all add: u_def field_simps)
  have u8: "P / 2 ^ 47 = 8 * u" by (simp add: u_def)
  have c: "\<bar>c\<bar> \<le> P" using assms(1) by (simp add: P_def)
  note c2f = celsius_to_fahrenheit_error [OF _ assms(2,3), folded P_def, folded u_def]
  note f2c = fahrenheit_to_celsius_error [OF _ assms(2,3), folded P_def, folded u_def]
  have first: "\<exists>f r. celsius_to_fahrenheit (Finite c) = Inr (Finite f)
             \<and> fahrenheit_to_celsius (Finite f) = Inr (Finite r) \<and> \<bar>r - c\<bar> \<le> P / 2 ^ 47"
  proof -
    from c2f [OF c] obtain f where f:
      "celsius_to_fahrenheit (Finite c) = Inr (Finite f)" "\<bar>f - (c * 9 / 5 + 32)\<bar> \<le> 3 * u"
      by blast
    have "\<bar>f\<bar> \<le> 2 * P" using f(2) c u P by argo
    from f2c [OF this] obtain r where r:
      "fahrenheit_to_celsius (Finite f) = Inr (Finite r)" "\<bar>r - (f - 32) * 5 / 9\<bar> \<le> 2 * u"
      by blast
    have "\<bar>r - c\<bar> \<le> 8 * u" using f(2) r(2) u(1) by argo
    with f(1) r(1) show ?thesis unfolding u8 by blast
  qed
  have second: "\<exists>c' r. fahrenheit_to_celsius (Finite c) = Inr (Finite c')
             \<and> celsius_to_fahrenheit (Finite c') = Inr (Finite r) \<and> \<bar>r - c\<bar> \<le> P / 2 ^ 47"
  proof -
    have "\<bar>c\<bar> \<le> 2 * P" using c P by argo
    from f2c [OF this] obtain c' where c':
      "fahrenheit_to_celsius (Finite c) = Inr (Finite c')" "\<bar>c' - (c - 32) * 5 / 9\<bar> \<le> 2 * u"
      by blast
    have "\<bar>c'\<bar> \<le> P" using c'(2) c u P by argo
    from c2f [OF this] obtain r where r:
      "celsius_to_fahrenheit (Finite c') = Inr (Finite r)" "\<bar>r - (c' * 9 / 5 + 32)\<bar> \<le> 3 * u"
      by blast
    have "\<bar>r - c\<bar> \<le> 8 * u" using c'(2) r(2) u(1) by argo
    with c'(1) r(1) show ?thesis unfolding u8 by blast
  qed
  from first second show ?thesis unfolding P_def by blast
qed

theorem conversion_round_trip_witness:
  "(\<exists>f r. celsius_to_fahrenheit (Finite 20) = Inr (Finite f)
             \<and> fahrenheit_to_celsius (Finite f) = Inr (Finite r)
             \<and> \<bar>r - 20\<bar> \<le> 1024 / 2 ^ 47)
   \<and> (\<exists>c' r. fahrenheit_to_celsius (Finite 20) = Inr (Finite c')
             \<and> celsius_to_fahrenheit (Finite c') = Inr (Finite r)
             \<and> \<bar>r - 20\<bar> \<le> 1024 / 2 ^ 47)"
proof -
  have h: "\<bar>20 :: real\<bar> \<le> pow2 10" by (simp add: pow2_def)
  have p: "pow2 10 = 1024" by (simp add: pow2_def)
  from conversion_round_trip [OF h] show ?thesis unfolding p by simp
qed

end
